theory Spec2Isabelle
  imports Main
begin

section \<open>The booking service of the storage and booking application\<close>

text \<open>
  This theory embeds the booking service (\<^verbatim>\<open>backend/src/services/booking.service.ts\<close>,
  class \<^verbatim>\<open>BookingService\<close>) and the availability helper
  \<^verbatim>\<open>calculateAvailableQuantity\<close>. The service works on four tables of a
  Supabase (PostgREST) store: \<^verbatim>\<open>orders\<close>, \<^verbatim>\<open>order_items\<close>,
  \<^verbatim>\<open>storage_items\<close> and \<^verbatim>\<open>user_profiles\<close>. Every awaited query is one
  request to the store; a request either answers or returns an error object, and the
  service never rolls anything back. The store is therefore modelled as a record of
  the four tables that is passed through every operation and returned with the
  result, also when the operation throws. The client that
  \<^verbatim>\<open>supabaseService.getClientByRole\<close> hands out is this store; the service of that
  name is not part of the sources.
\<close>

subsection \<open>Rows\<close>

text \<open>
  Identifiers and statuses are strings, as in the code. A date is the day number of a
  calendar day, so that the comparisons \<^verbatim>\<open>lte\<close> and \<^verbatim>\<open>gte\<close> of the store are
  \<open>\<le>\<close> and \<open>\<ge>\<close> on integers. The column \<^verbatim>\<open>quantity\<close> of a line item is
  nullable: the code reads it as \<^verbatim>\<open>o.quantity ?? 0\<close>.
\<close>

type_synonym date = int

record order =
  o_id :: string
  o_user_id :: string
  o_status :: string
  o_order_number :: string

record order_item =
  oi_order_id :: string
  oi_item_id :: string
  oi_location_id :: string
  oi_quantity :: "int option"
  oi_start_date :: date
  oi_end_date :: date
  oi_total_days :: int
  oi_status :: string

record storage_item =
  si_id :: string
  si_location_id :: string
  items_number_total :: int
  items_number_available :: int

record user_profile =
  up_id :: string
  up_role :: string

text \<open>
  The field \<open>outages\<close> is the script of the coming requests: the head tells whether
  the next request returns an error (\<open>True\<close>) or is answered; an empty script means
  that every request is answered. The flag \<open>order_number_unique\<close> says whether the
  schema, which is not part of the sources, puts a uniqueness constraint on
  \<^verbatim>\<open>orders.order_number\<close>.
\<close>

record supabase =
  orders :: "order list"
  order_items :: "order_item list"
  storage_items :: "storage_item list"
  user_profiles :: "user_profile list"
  order_number_unique :: bool
  outages :: "bool list"

datatype exception =
  BadRequestException string
| ForbiddenException string
| Error string

subsection \<open>Requests\<close>

definition request :: "supabase \<Rightarrow> bool \<times> supabase" where
  "request db =
     (case outages db of
        [] \<Rightarrow> (True, db)
      | down # rest \<Rightarrow> (\<not> down, db\<lparr>outages := rest\<rparr>))"

text \<open>\<^verbatim>\<open>.single()\<close> answers with an error unless exactly one row matches.\<close>

definition single :: "'a list \<Rightarrow> 'a option" where
  "single rows = (case rows of [r] \<Rightarrow> Some r | _ \<Rightarrow> None)"

text \<open>JavaScript reads \<^verbatim>\<open>null\<close> as the number 0 in \<open><\<close> and \<open>-\<close>, and so do
  \<^verbatim>\<open>?? 0\<close> and \<^verbatim>\<open>|| 0\<close>.\<close>

definition js_number :: "int option \<Rightarrow> int" where
  "js_number q = (case q of None \<Rightarrow> 0 | Some n \<Rightarrow> n)"

text \<open>\<^verbatim>\<open>rows.reduce((sum, o) => sum + (o.quantity ?? 0), 0)\<close> on the column
  \<^verbatim>\<open>quantity\<close> of the selected rows.\<close>

definition reduce_quantity :: "int option list \<Rightarrow> int" where
  "reduce_quantity rows = foldl (\<lambda>sum q. sum + js_number q) 0 rows"

subsection \<open>The overlap predicate of the specification\<close>

text \<open>
  The specification's words: two closed intervals \<open>[a_start, a_end]\<close> and
  \<open>[b_start, b_end]\<close> intersect iff \<open>a.start \<le> b.end\<close> and \<open>a.end \<ge> b.start\<close>.
  The queries of the code below are written from the source and compared with it.
\<close>

definition intervals_overlap :: "date \<times> date \<Rightarrow> date \<times> date \<Rightarrow> bool" where
  "intervals_overlap a b = (fst a \<le> snd b \<and> snd a \<ge> fst b)"

text \<open>
  The ledger sum of the specification, in its words: the sum of the quantities of all
  claims of the item whose status is in the given set and whose interval
  \<open>[start_date, end_date]\<close> intersects the queried interval. It is compared below with
  what the functions of the code compute.
\<close>

definition sumOverlapping :: "order_item list \<Rightarrow> string \<Rightarrow> date \<Rightarrow> date \<Rightarrow> string set \<Rightarrow> int" where
  "sumOverlapping claims itemId startDate endDate statuses =
     sum_list (map (\<lambda>r. js_number (oi_quantity r))
       (filter (\<lambda>r. oi_item_id r = itemId \<and> oi_status r \<in> statuses
                  \<and> intervals_overlap (oi_start_date r, oi_end_date r) (startDate, endDate))
          claims))"

text \<open>Day number of a date of the Gregorian calendar (days since 1970-01-01), used to
  write dates in examples.\<close>

definition day_number :: "int \<Rightarrow> int \<Rightarrow> int \<Rightarrow> date" where
  "day_number y m d =
     (let y' = (if m \<le> 2 then y - 1 else y);
          era = y' div 400;
          yoe = y' - era * 400;
          mp = (m + 9) mod 12;
          doy = (153 * mp + 2) div 5 + d - 1;
          doe = yoe * 365 + yoe div 4 - yoe div 100 + doy
      in era * 146097 + doe - 719468)"

subsection \<open>calculateAvailableQuantity\<close>

text \<open>
  \<^verbatim>\<open>from("order_items").select("quantity").eq("item_id", itemId)
     .in("status", ["pending", "confirmed"])
     .or(`and(start_date.lte.${endDate},end_date.gte.${startDate})`)\<close>
\<close>

definition calculateAvailableQuantity_overlapping ::
  "string \<Rightarrow> date \<Rightarrow> date \<Rightarrow> supabase \<Rightarrow> int option list option \<times> supabase" where
  "calculateAvailableQuantity_overlapping itemId startDate endDate db =
     (case request db of
        (False, db') \<Rightarrow> (None, db')
      | (True, db') \<Rightarrow>
          (Some (map oi_quantity
             (filter (\<lambda>r. oi_item_id r = itemId
                        \<and> oi_status r \<in> set [''pending'', ''confirmed'']
                        \<and> (oi_start_date r \<le> endDate \<and> oi_end_date r \<ge> startDate))
                (order_items db'))), db'))"

text \<open>\<^verbatim>\<open>from("storage_items").select("items_number_total").eq("id", itemId).single()\<close>\<close>

definition select_items_number_total :: "string \<Rightarrow> supabase \<Rightarrow> int option \<times> supabase" where
  "select_items_number_total itemId db =
     (case request db of
        (False, db') \<Rightarrow> (None, db')
      | (True, db') \<Rightarrow>
          (map_option items_number_total
             (single (filter (\<lambda>s. si_id s = itemId) (storage_items db'))), db'))"

definition calculateAvailableQuantity ::
  "supabase \<Rightarrow> string \<Rightarrow> date \<Rightarrow> date \<Rightarrow> (exception + int) \<times> supabase" where
  "calculateAvailableQuantity db itemId startDate endDate =
     (case calculateAvailableQuantity_overlapping itemId startDate endDate db of
        (None, db1) \<Rightarrow> (Inl (Error ''Error checking the bookings''), db1)
      | (Some overlapping, db1) \<Rightarrow>
          (let booked = reduce_quantity overlapping in
           case select_items_number_total itemId db1 of
             (None, db2) \<Rightarrow> (Inl (Error ''Error when retrieving/ calling item.total''), db2)
           | (Some item_total, db2) \<Rightarrow> (Inr (item_total - booked), db2)))"

subsection \<open>checkAvailability\<close>

text \<open>
  \<^verbatim>\<open>from("order_items").select("quantity").eq("item_id", itemId)
     .or(`and(start_date.lte.${endDate},end_date.gte.${startDate})`)\<close>
\<close>

definition checkAvailability_overlappingOrders ::
  "string \<Rightarrow> date \<Rightarrow> date \<Rightarrow> supabase \<Rightarrow> int option list option \<times> supabase" where
  "checkAvailability_overlappingOrders itemId startDate endDate db =
     (case request db of
        (False, db') \<Rightarrow> (None, db')
      | (True, db') \<Rightarrow>
          (Some (map oi_quantity
             (filter (\<lambda>r. oi_item_id r = itemId
                        \<and> (oi_start_date r \<le> endDate \<and> oi_end_date r \<ge> startDate))
                (order_items db'))), db'))"

record availability =
  av_item_id :: string
  availableQuantity :: int
  alreadyBookedQuantity :: int
  totalQuantity :: int
  av_startDate :: date
  av_endDate :: date

definition checkAvailability ::
  "supabase \<Rightarrow> string \<Rightarrow> date \<Rightarrow> date \<Rightarrow> string \<Rightarrow> (exception + availability) \<times> supabase" where
  "checkAvailability db itemId startDate endDate userId =
     (case checkAvailability_overlappingOrders itemId startDate endDate db of
        (None, db1) \<Rightarrow> (Inl (BadRequestException ''Error checking overlapping bookings''), db1)
      | (Some overlappingOrders, db1) \<Rightarrow>
          (let booked = reduce_quantity overlappingOrders in
           case select_items_number_total itemId db1 of
             (None, db2) \<Rightarrow> (Inl (BadRequestException ''Item data not found''), db2)
           | (Some item_total, db2) \<Rightarrow>
               (Inr \<lparr>av_item_id = itemId,
                     availableQuantity = item_total - booked,
                     alreadyBookedQuantity = booked,
                     totalQuantity = item_total,
                     av_startDate = startDate,
                     av_endDate = endDate\<rparr>, db2)))"

subsection \<open>createBooking\<close>

record booking_item_dto =
  item_id :: string
  quantity :: int
  start_date :: date
  end_date :: date

text \<open>An absent \<^verbatim>\<open>user_id\<close> is the empty string: \<^verbatim>\<open>!userId\<close> holds for both.\<close>

record create_booking_dto =
  user_id :: string
  items :: "booking_item_dto list"

text \<open>\<^verbatim>\<open>from("user_profiles").select("*").eq("id", userId).single()\<close>\<close>

definition select_user_profile :: "string \<Rightarrow> supabase \<Rightarrow> user_profile option \<times> supabase" where
  "select_user_profile userId db =
     (case request db of
        (False, db') \<Rightarrow> (None, db')
      | (True, db') \<Rightarrow> (single (filter (\<lambda>u. up_id u = userId) (user_profiles db')), db'))"

text \<open>
  \<^verbatim>\<open>from("order_items").select("quantity").eq("item_id", item.item_id)
     .or(`and(start_date.lte.${item.end_date},end_date.gte.${item.start_date})`)\<close>
\<close>

definition createBooking_overlappingOrders ::
  "booking_item_dto \<Rightarrow> supabase \<Rightarrow> int option list option \<times> supabase" where
  "createBooking_overlappingOrders item db =
     (case request db of
        (False, db') \<Rightarrow> (None, db')
      | (True, db') \<Rightarrow>
          (Some (map oi_quantity
             (filter (\<lambda>r. oi_item_id r = item_id item
                        \<and> (oi_start_date r \<le> end_date item \<and> oi_end_date r \<ge> start_date item))
                (order_items db'))), db'))"

text \<open>The first loop of \<^verbatim>\<open>createBooking\<close>: "check for overlapping bookings".\<close>

fun createBooking_check :: "booking_item_dto list \<Rightarrow> supabase \<Rightarrow> (exception + unit) \<times> supabase" where
  "createBooking_check [] db = (Inr (), db)"
| "createBooking_check (item # rest) db =
     (case createBooking_overlappingOrders item db of
        (None, db1) \<Rightarrow> (Inl (BadRequestException ''Could not check overlapping bookings''), db1)
      | (Some overlappingOrders, db1) \<Rightarrow>
          (let alreadyBookedQuantity = reduce_quantity overlappingOrders in
           case select_items_number_total (item_id item) db1 of
             (None, db2) \<Rightarrow> (Inl (BadRequestException ''Item data not found''), db2)
           | (Some itemData_total, db2) \<Rightarrow>
               if alreadyBookedQuantity + quantity item > itemData_total
               then (Inl (BadRequestException
                            (''Not enough quantity available for item '' @ item_id item)), db2)
               else createBooking_check rest db2))"

text \<open>\<^verbatim>\<open>n.toString()\<close> for a natural number, and \<^verbatim>\<open>s.padStart(n, c)\<close>.\<close>

definition digit :: "nat \<Rightarrow> char" where
  "digit n = ''0123456789'' ! (n mod 10)"

fun toString :: "nat \<Rightarrow> string" where
  "toString n = (if n < 10 then [digit n] else toString (n div 10) @ [digit n])"

declare toString.simps [simp del]

definition padStart :: "nat \<Rightarrow> char \<Rightarrow> string \<Rightarrow> string" where
  "padStart n c s = replicate (n - length s) c @ s"

text \<open>
  \<^verbatim>\<open>generateOrderNumber\<close>: \<open>nowISO\<close> is \<^verbatim>\<open>new Date().toISOString()\<close> and \<open>rnd\<close>
  is \<^verbatim>\<open>Math.floor(Math.random() * 10000)\<close>. The function is called once, in the
  row given to the insert.
\<close>

definition generateOrderNumber :: "string \<Rightarrow> nat \<Rightarrow> string" where
  "generateOrderNumber nowISO rnd =
     (let datePart = filter (\<lambda>c. c \<noteq> CHR ''-'') (takeWhile (\<lambda>c. c \<noteq> CHR ''T'') nowISO);
          randomPart = padStart 4 (CHR ''0'') (toString rnd)
      in ''ORD-'' @ datePart @ ''-'' @ randomPart)"

text \<open>
  \<^verbatim>\<open>from("orders").insert({...}).select().single()\<close>. The store refuses the row when
  the order number is taken and the column is unique.
\<close>

definition insert_order :: "order \<Rightarrow> supabase \<Rightarrow> order option \<times> supabase" where
  "insert_order row db =
     (case request db of
        (False, db') \<Rightarrow> (None, db')
      | (True, db') \<Rightarrow>
          if order_number_unique db' \<and> o_order_number row \<in> set (map o_order_number (orders db'))
          then (None, db')
          else (Some row, db'\<lparr>orders := orders db' @ [row]\<rparr>))"

text \<open>\<^verbatim>\<open>from("storage_items").select("location_id").eq("id", item.item_id).single()\<close>\<close>

definition select_location_id :: "string \<Rightarrow> supabase \<Rightarrow> string option \<times> supabase" where
  "select_location_id itemId db =
     (case request db of
        (False, db') \<Rightarrow> (None, db')
      | (True, db') \<Rightarrow>
          (map_option si_location_id
             (single (filter (\<lambda>s. si_id s = itemId) (storage_items db'))), db'))"

text \<open>\<^verbatim>\<open>from("order_items").insert({...})\<close>; the boolean tells whether the insert
  was answered without error.\<close>

definition insert_order_item :: "order_item \<Rightarrow> supabase \<Rightarrow> bool \<times> supabase" where
  "insert_order_item row db =
     (case request db of
        (False, db') \<Rightarrow> (False, db')
      | (True, db') \<Rightarrow> (True, db'\<lparr>order_items := order_items db' @ [row]\<rparr>))"

text \<open>The second loop of \<^verbatim>\<open>createBooking\<close>: "Insert order items and calculate
  days". With dates as day numbers, \<^verbatim>\<open>Math.ceil((end - start) / 86400000)\<close> is the
  difference of the day numbers.\<close>

fun createBooking_insert ::
  "string \<Rightarrow> booking_item_dto list \<Rightarrow> supabase \<Rightarrow> (exception + unit) \<times> supabase" where
  "createBooking_insert orderId [] db = (Inr (), db)"
| "createBooking_insert orderId (item # rest) db =
     (let totalDays = end_date item - start_date item in
      case select_location_id (item_id item) db of
        (None, db1) \<Rightarrow>
          (Inl (BadRequestException (''Could not fetch location_id for item '' @ item_id item)), db1)
      | (Some location_id, db1) \<Rightarrow>
          (case insert_order_item
                  \<lparr>oi_order_id = orderId, oi_item_id = item_id item,
                   oi_location_id = location_id, oi_quantity = Some (quantity item),
                   oi_start_date = start_date item, oi_end_date = end_date item,
                   oi_total_days = totalDays, oi_status = ''pending''\<rparr> db1 of
             (False, db2) \<Rightarrow> (Inl (BadRequestException ''Could not create order items''), db2)
           | (True, db2) \<Rightarrow> createBooking_insert orderId rest db2))"

text \<open>
  \<open>nowISO\<close> and \<open>rnd\<close> are the clock and the random draw read by
  \<^verbatim>\<open>generateOrderNumber\<close>; \<open>newId\<close> is the identifier the store gives the new
  order row.
\<close>

definition createBooking ::
  "supabase \<Rightarrow> create_booking_dto \<Rightarrow> string \<Rightarrow> nat \<Rightarrow> string \<Rightarrow> (exception + order) \<times> supabase" where
  "createBooking db dto nowISO rnd newId =
     (let userId = user_id dto in
      if userId = [] then (Inl (BadRequestException ''No userId found: user_id is required''), db)
      else
        case select_user_profile userId db of
          (None, db1) \<Rightarrow> (Inl (BadRequestException ''User not found''), db1)
        | (Some user, db1) \<Rightarrow>
            (case createBooking_check (items dto) db1 of
               (Inl e, db2) \<Rightarrow> (Inl e, db2)
             | (Inr _, db2) \<Rightarrow>
                 (case insert_order
                         \<lparr>o_id = newId, o_user_id = up_id user, o_status = ''pending'',
                          o_order_number = generateOrderNumber nowISO rnd\<rparr> db2 of
                    (None, db3) \<Rightarrow> (Inl (BadRequestException ''Could not create order''), db3)
                  | (Some order, db3) \<Rightarrow>
                      (case createBooking_insert (o_id order) (items dto) db3 of
                         (Inl e, db4) \<Rightarrow> (Inl e, db4)
                       | (Inr _, db4) \<Rightarrow> (Inr order, db4)))))"

subsection \<open>Updates of the store\<close>

text \<open>\<^verbatim>\<open>from("orders").update({ status }).eq("id", orderId)\<close>\<close>

definition update_order_status :: "string \<Rightarrow> string \<Rightarrow> supabase \<Rightarrow> bool \<times> supabase" where
  "update_order_status orderId status db =
     (case request db of
        (False, db') \<Rightarrow> (False, db')
      | (True, db') \<Rightarrow>
          (True, db'\<lparr>orders :=
             map (\<lambda>row. if o_id row = orderId then row\<lparr>o_status := status\<rparr> else row) (orders db')\<rparr>))"

text \<open>\<^verbatim>\<open>from("order_items").update({ status }).eq("order_id", orderId)\<close>\<close>

definition update_order_items_status :: "string \<Rightarrow> string \<Rightarrow> supabase \<Rightarrow> bool \<times> supabase" where
  "update_order_items_status orderId status db =
     (case request db of
        (False, db') \<Rightarrow> (False, db')
      | (True, db') \<Rightarrow>
          (True, db'\<lparr>order_items :=
             map (\<lambda>r. if oi_order_id r = orderId then r\<lparr>oi_status := status\<rparr> else r)
               (order_items db')\<rparr>))"

text \<open>\<^verbatim>\<open>from("storage_items").update({ items_number_available }).eq("id", itemId)\<close>\<close>

definition update_items_number_available :: "string \<Rightarrow> int \<Rightarrow> supabase \<Rightarrow> bool \<times> supabase" where
  "update_items_number_available itemId n db =
     (case request db of
        (False, db') \<Rightarrow> (False, db')
      | (True, db') \<Rightarrow>
          (True, db'\<lparr>storage_items :=
             map (\<lambda>s. if si_id s = itemId then s\<lparr>items_number_available := n\<rparr> else s)
               (storage_items db')\<rparr>))"


text \<open>\<^verbatim>\<open>from("order_items").select("item_id, quantity").eq("order_id", orderId)\<close>:
  the rows come back with the two selected columns only.\<close>

definition select_order_items ::
  "string \<Rightarrow> supabase \<Rightarrow> (string \<times> int option) list option \<times> supabase" where
  "select_order_items orderId db =
     (case request db of
        (False, db') \<Rightarrow> (None, db')
      | (True, db') \<Rightarrow>
          (Some (map (\<lambda>r. (oi_item_id r, oi_quantity r))
                   (filter (\<lambda>r. oi_order_id r = orderId) (order_items db'))), db'))"

text \<open>\<^verbatim>\<open>from("user_profiles").select("role").eq("id", userId).single()\<close>\<close>

definition select_role :: "string \<Rightarrow> supabase \<Rightarrow> string option \<times> supabase" where
  "select_role userId db =
     (case request db of
        (False, db') \<Rightarrow> (None, db')
      | (True, db') \<Rightarrow>
          (map_option up_role (single (filter (\<lambda>u. up_id u = userId) (user_profiles db'))), db'))"

text \<open>
  \<^verbatim>\<open>from("orders").select("user_id").eq("id", orderId).single()\<close>. Only the column
  \<^verbatim>\<open>user_id\<close> is selected: the property \<^verbatim>\<open>status\<close> that \<^verbatim>\<open>cancelBooking\<close>
  reads from the answer is \<^verbatim>\<open>undefined\<close> (\<open>None\<close>), whatever the type parameter of
  \<^verbatim>\<open>single\<close> declares.
\<close>

record selected_order =
  user_id_of :: string
  status_of :: "string option"

definition select_order_user_id :: "string \<Rightarrow> supabase \<Rightarrow> selected_order option \<times> supabase" where
  "select_order_user_id orderId db =
     (case request db of
        (False, db') \<Rightarrow> (None, db')
      | (True, db') \<Rightarrow>
          (map_option (\<lambda>row. \<lparr>user_id_of = o_user_id row, status_of = None\<rparr>)
             (single (filter (\<lambda>row. o_id row = orderId) (orders db'))), db'))"

subsection \<open>confirmBooking\<close>

text \<open>The loop of \<^verbatim>\<open>confirmBooking\<close>: "check availability of the items". It reads
  \<^verbatim>\<open>items_number_available\<close> of the item, compares it with the quantity, and
  writes the difference back, item after item.\<close>

definition select_items_number_available :: "string \<Rightarrow> supabase \<Rightarrow> int option \<times> supabase" where
  "select_items_number_available itemId db =
     (case request db of
        (False, db') \<Rightarrow> (None, db')
      | (True, db') \<Rightarrow>
          (map_option items_number_available
             (single (filter (\<lambda>s. si_id s = itemId) (storage_items db'))), db'))"

fun confirmBooking_items ::
  "(string \<times> int option) list \<Rightarrow> supabase \<Rightarrow> (exception + unit) \<times> supabase" where
  "confirmBooking_items [] db = (Inr (), db)"
| "confirmBooking_items (item # rest) db =
     (case select_items_number_available (fst item) db of
        (None, db1) \<Rightarrow> (Inl (BadRequestException ''Could not fetch storage item details''), db1)
      | (Some available, db1) \<Rightarrow>
          if available < js_number (snd item)
          then (Inl (BadRequestException
                       (''Not enough available quantity for item '' @ fst item)), db1)
          else
            (case update_items_number_available (fst item) (available - js_number (snd item)) db1 of
               (False, db2) \<Rightarrow>
                 (Inl (BadRequestException (''Failed to reduce stock for item '' @ fst item)), db2)
             | (True, db2) \<Rightarrow> confirmBooking_items rest db2))"

definition confirmBooking :: "supabase \<Rightarrow> string \<Rightarrow> string \<Rightarrow> (exception + string) \<times> supabase" where
  "confirmBooking db orderId userId =
     (case select_order_items orderId db of
        (None, db1) \<Rightarrow> (Inl (BadRequestException ''Could not load order items''), db1)
      | (Some its, db1) \<Rightarrow>
          (case confirmBooking_items its db1 of
             (Inl e, db2) \<Rightarrow> (Inl e, db2)
           | (Inr _, db2) \<Rightarrow>
               (case update_order_status orderId ''confirmed'' db2 of
                  (False, db3) \<Rightarrow> (Inl (BadRequestException ''Could not confirm booking''), db3)
                | (True, db3) \<Rightarrow>
                    (case update_order_items_status orderId ''confirmed'' db3 of
                       (False, db4) \<Rightarrow>
                         (Inl (BadRequestException ''Could not confirm order items''), db4)
                     | (True, db4) \<Rightarrow> (Inr ''Booking confirmed'', db4)))))"

subsection \<open>rejectBooking, cancelBooking, deleteBooking\<close>


definition cancelBooking :: "supabase \<Rightarrow> string \<Rightarrow> string \<Rightarrow> (exception + string) \<times> supabase" where
  "cancelBooking db orderId userId =
     (case select_order_user_id orderId db of
        (None, db1) \<Rightarrow> (Inl (BadRequestException ''Order not found''), db1)
      | (Some order, db1) \<Rightarrow>
          (case select_role userId db1 of
             (None, db2) \<Rightarrow> (Inl (BadRequestException ''User profile not found''), db2)
           | (Some role, db2) \<Rightarrow>
               (let isAdmin = (role = ''admin'' \<or> role = ''superVera'');
                    isOwner = (user_id_of order = userId)
                in
                if \<not> isAdmin \<and> \<not> isOwner
                then (Inl (ForbiddenException ''You can only cancel your own bookings''), db2)
                else if \<not> isAdmin \<and> status_of order = Some ''confirmed''
                then (Inl (ForbiddenException
                  ''You can't cancel a booking that has already been confirmed''), db2)
                else
                  (case update_order_status orderId
                          (if isAdmin then ''cancelled by admin'' else ''cancelled by user'') db2 of
                     (False, db3) \<Rightarrow>
                       (Inl (BadRequestException ''Could not cancel the booking''), db3)
                   | (True, db3) \<Rightarrow>
                       (Inr (''Booking cancelled by '' @ (if isAdmin then ''admin'' else ''user'')),
                        db3)))))"


subsection \<open>returnItems\<close>

text \<open>
  Modelled from the spec: the stored procedure \<^verbatim>\<open>increment_item_quantity\<close> called by
  \<^verbatim>\<open>returnItems\<close> is not part of the sources. The specification says that
  \<^verbatim>\<open>returnItems\<close> "restores Item capacity" for each line item: the procedure adds
  the quantity to the cached available count \<^verbatim>\<open>items_number_available\<close> of the item.
  The service awaits the call and ignores its answer.
\<close>

definition increment_item_quantity :: "string \<Rightarrow> int option \<Rightarrow> supabase \<Rightarrow> bool \<times> supabase" where
  "increment_item_quantity itemId qty db =
     (case request db of
        (False, db') \<Rightarrow> (False, db')
      | (True, db') \<Rightarrow>
          (True, db'\<lparr>storage_items :=
             map (\<lambda>s. if si_id s = itemId
                       then s\<lparr>items_number_available := items_number_available s + js_number qty\<rparr>
                       else s)
               (storage_items db')\<rparr>))"

fun returnItems_items :: "(string \<times> int option) list \<Rightarrow> supabase \<Rightarrow> supabase" where
  "returnItems_items [] db = db"
| "returnItems_items (item # rest) db =
     returnItems_items rest (snd (increment_item_quantity (fst item) (snd item) db))"

definition returnItems :: "supabase \<Rightarrow> string \<Rightarrow> string \<Rightarrow> (exception + string) \<times> supabase" where
  "returnItems db orderId userId =
     (case select_order_items orderId db of
        (None, db1) \<Rightarrow> (Inl (BadRequestException ''No items found for return''), db1)
      | (Some its, db1) \<Rightarrow>
          if its = [] then (Inl (BadRequestException ''No items found for return''), db1)
          else (Inr ''Items returned successfully'', returnItems_items its db1))"

subsection \<open>Predicates used in the statements\<close>

text \<open>A write of the cached count is harmless when it leaves the count as it was or
  stores a non-negative number.\<close>

definition unchanged_or_nonnegative :: "storage_item \<Rightarrow> storage_item \<Rightarrow> bool" where
  "unchanged_or_nonnegative s s' =
     (items_number_available s' = items_number_available s \<or> 0 \<le> items_number_available s')"

text \<open>The test of the first loop of \<^verbatim>\<open>createBooking\<close> on the tables as they
  are: the requested quantity plus the sum over the overlapping line items exceeds
  \<^verbatim>\<open>items_number_total\<close> of the item.\<close>

definition createBooking_exceeds :: "supabase \<Rightarrow> booking_item_dto \<Rightarrow> bool" where
  "createBooking_exceeds db item =
     (case single (filter (\<lambda>s. si_id s = item_id item) (storage_items db)) of
        None \<Rightarrow> False
      | Some s \<Rightarrow>
          reduce_quantity (map oi_quantity
            (filter (\<lambda>r. oi_item_id r = item_id item
                       \<and> (oi_start_date r \<le> end_date item \<and> oi_end_date r \<ge> start_date item))
               (order_items db)))
          + quantity item > items_number_total s)"

text \<open>The test of the loop of \<^verbatim>\<open>confirmBooking\<close> on the tables as they are: the
  cached count of the item is below the quantity of the line item.\<close>

definition confirmBooking_lacks :: "supabase \<Rightarrow> string \<times> int option \<Rightarrow> bool" where
  "confirmBooking_lacks db item =
     (case single (filter (\<lambda>s. si_id s = fst item) (storage_items db)) of
        None \<Rightarrow> False
      | Some s \<Rightarrow> items_number_available s < js_number (snd item))"




text \<open>The line items of a booking as \<^verbatim>\<open>confirmBooking\<close> and \<^verbatim>\<open>returnItems\<close>
  select them.\<close>

definition line_items :: "supabase \<Rightarrow> string \<Rightarrow> (string \<times> int option) list" where
  "line_items db orderId =
     map (\<lambda>r. (oi_item_id r, oi_quantity r)) (filter (\<lambda>r. oi_order_id r = orderId) (order_items db))"

subsection \<open>Example stores\<close>

text \<open>Two users and an administrator.\<close>

definition example_users :: "user_profile list" where
  "example_users =
     [\<lparr>up_id = ''u1'', up_role = ''user''\<rparr>,
      \<lparr>up_id = ''u2'', up_role = ''user''\<rparr>,
      \<lparr>up_id = ''a1'', up_role = ''admin''\<rparr>]"



text \<open>Two items of five units each and no booking; the tenth request from now on
  fails.\<close>

definition empty_store :: supabase where
  "empty_store =
     \<lparr>orders = [],
      order_items = [],
      storage_items =
        [\<lparr>si_id = ''i1'', si_location_id = ''l1'', items_number_total = 5,
          items_number_available = 5\<rparr>,
         \<lparr>si_id = ''i2'', si_location_id = ''l2'', items_number_total = 5,
          items_number_available = 5\<rparr>],
      user_profiles = example_users,
      order_number_unique = True,
      outages = []\<rparr>"

definition tenth_request_fails :: supabase where
  "tenth_request_fails = empty_store\<lparr>outages := replicate 9 False @ [True]\<rparr>"

definition two_items_request :: create_booking_dto where
  "two_items_request =
     \<lparr>user_id = ''u1'',
      items =
        [\<lparr>item_id = ''i1'', quantity = 1, start_date = day_number 2024 1 1,
          end_date = day_number 2024 1 5\<rparr>,
         \<lparr>item_id = ''i2'', quantity = 1, start_date = day_number 2024 1 1,
          end_date = day_number 2024 1 5\<rparr>]\<rparr>"

text \<open>The same request with six units of the second item, one more than there are.\<close>

definition too_many_request :: create_booking_dto where
  "too_many_request =
     \<lparr>user_id = ''u1'',
      items =
        [\<lparr>item_id = ''i1'', quantity = 1, start_date = day_number 2024 1 1,
          end_date = day_number 2024 1 5\<rparr>,
         \<lparr>item_id = ''i2'', quantity = 6, start_date = day_number 2024 1 1,
          end_date = day_number 2024 1 5\<rparr>]\<rparr>"

text \<open>Booking \<open>b1\<close> of user \<open>u1\<close> has two line items: two units of \<open>i1\<close>, of which
  five are in, and one unit of \<open>i2\<close>, of which none is in.\<close>

definition short_stock_store :: supabase where
  "short_stock_store =
     \<lparr>orders =
        [\<lparr>o_id = ''b1'', o_user_id = ''u1'', o_status = ''pending'',
          o_order_number = ''ORD-20231220-0001''\<rparr>],
      order_items =
        [\<lparr>oi_order_id = ''b1'', oi_item_id = ''i1'', oi_location_id = ''l1'',
          oi_quantity = Some 2, oi_start_date = day_number 2024 1 1,
          oi_end_date = day_number 2024 1 5, oi_total_days = 4, oi_status = ''pending''\<rparr>,
         \<lparr>oi_order_id = ''b1'', oi_item_id = ''i2'', oi_location_id = ''l2'',
          oi_quantity = Some 1, oi_start_date = day_number 2024 1 1,
          oi_end_date = day_number 2024 1 5, oi_total_days = 4, oi_status = ''pending''\<rparr>],
      storage_items =
        [\<lparr>si_id = ''i1'', si_location_id = ''l1'', items_number_total = 5,
          items_number_available = 5\<rparr>,
         \<lparr>si_id = ''i2'', si_location_id = ''l2'', items_number_total = 5,
          items_number_available = 0\<rparr>],
      user_profiles = example_users,
      order_number_unique = True,
      outages = []\<rparr>"

text \<open>Item \<open>i1\<close> has five units; its only line item, five units from 2024-01-01 to
  2024-01-05, belongs to a cancelled booking and has status \<open>cancelled\<close>.\<close>

definition cancelled_claim_store :: supabase where
  "cancelled_claim_store =
     \<lparr>orders =
        [\<lparr>o_id = ''b0'', o_user_id = ''u2'', o_status = ''cancelled by user'',
          o_order_number = ''ORD-20231220-0001''\<rparr>],
      order_items =
        [\<lparr>oi_order_id = ''b0'', oi_item_id = ''i1'', oi_location_id = ''l1'',
          oi_quantity = Some 5, oi_start_date = day_number 2024 1 1,
          oi_end_date = day_number 2024 1 5, oi_total_days = 4, oi_status = ''cancelled''\<rparr>],
      storage_items =
        [\<lparr>si_id = ''i1'', si_location_id = ''l1'', items_number_total = 5,
          items_number_available = 5\<rparr>],
      user_profiles = example_users,
      order_number_unique = True,
      outages = []\<rparr>"

definition one_unit_request :: create_booking_dto where
  "one_unit_request =
     \<lparr>user_id = ''u1'',
      items =
        [\<lparr>item_id = ''i1'', quantity = 1, start_date = day_number 2024 1 3,
          end_date = day_number 2024 1 10\<rparr>]\<rparr>"

text \<open>Booking \<open>b1\<close> of user \<open>u1\<close>, two units of \<open>i1\<close>, has been confirmed: three of
  the five units are in.\<close>

definition confirmed_store :: supabase where
  "confirmed_store =
     \<lparr>orders =
        [\<lparr>o_id = ''b1'', o_user_id = ''u1'', o_status = ''confirmed'',
          o_order_number = ''ORD-20240101-0005''\<rparr>],
      order_items =
        [\<lparr>oi_order_id = ''b1'', oi_item_id = ''i1'', oi_location_id = ''l1'',
          oi_quantity = Some 2, oi_start_date = day_number 2024 1 1,
          oi_end_date = day_number 2024 1 5, oi_total_days = 4, oi_status = ''confirmed''\<rparr>],
      storage_items =
        [\<lparr>si_id = ''i1'', si_location_id = ''l1'', items_number_total = 5,
          items_number_available = 3\<rparr>],
      user_profiles = example_users,
      order_number_unique = True,
      outages = []\<rparr>"


text \<open>A request of user \<open>u2\<close> for one unit of \<open>i1\<close> in February.\<close>

definition february_request :: create_booking_dto where
  "february_request =
     \<lparr>user_id = ''u2'',
      items =
        [\<lparr>item_id = ''i1'', quantity = 1, start_date = day_number 2024 2 1,
          end_date = day_number 2024 2 3\<rparr>]\<rparr>"

text \<open>Booking \<open>b2\<close> is confirmed and has all five units of \<open>i1\<close> out from
  2024-03-01 to 2024-03-05; the pending booking \<open>b1\<close> asks for two units from
  2024-01-01 to 2024-01-05.\<close>

definition march_claim_store :: supabase where
  "march_claim_store =
     \<lparr>orders =
        [\<lparr>o_id = ''b1'', o_user_id = ''u1'', o_status = ''pending'',
          o_order_number = ''ORD-20231220-0001''\<rparr>,
         \<lparr>o_id = ''b2'', o_user_id = ''u2'', o_status = ''confirmed'',
          o_order_number = ''ORD-20231220-0002''\<rparr>],
      order_items =
        [\<lparr>oi_order_id = ''b2'', oi_item_id = ''i1'', oi_location_id = ''l1'',
          oi_quantity = Some 5, oi_start_date = day_number 2024 3 1,
          oi_end_date = day_number 2024 3 5, oi_total_days = 4, oi_status = ''confirmed''\<rparr>,
         \<lparr>oi_order_id = ''b1'', oi_item_id = ''i1'', oi_location_id = ''l1'',
          oi_quantity = Some 2, oi_start_date = day_number 2024 1 1,
          oi_end_date = day_number 2024 1 5, oi_total_days = 4, oi_status = ''pending''\<rparr>],
      storage_items =
        [\<lparr>si_id = ''i1'', si_location_id = ''l1'', items_number_total = 5,
          items_number_available = 0\<rparr>],
      user_profiles = example_users,
      order_number_unique = True,
      outages = []\<rparr>"

text \<open>Item \<open>i1\<close> has five units, three of them claimed by the pending booking
  \<open>b0\<close> from 2024-01-01 to 2024-01-05.\<close>

definition boundary_store :: supabase where
  "boundary_store =
     \<lparr>orders =
        [\<lparr>o_id = ''b0'', o_user_id = ''u2'', o_status = ''pending'',
          o_order_number = ''ORD-20231220-0001''\<rparr>],
      order_items =
        [\<lparr>oi_order_id = ''b0'', oi_item_id = ''i1'', oi_location_id = ''l1'',
          oi_quantity = Some 3, oi_start_date = day_number 2024 1 1,
          oi_end_date = day_number 2024 1 5, oi_total_days = 4, oi_status = ''pending''\<rparr>],
      storage_items =
        [\<lparr>si_id = ''i1'', si_location_id = ''l1'', items_number_total = 5,
          items_number_available = 5\<rparr>],
      user_profiles = example_users,
      order_number_unique = True,
      outages = []\<rparr>"

text \<open>A request for three units of \<open>i1\<close> from 2024-01-05, the last day of the claim of
  \<open>b0\<close>, to 2024-01-10.\<close>

definition boundary_day_request :: create_booking_dto where
  "boundary_day_request =
     \<lparr>user_id = ''u1'',
      items =
        [\<lparr>item_id = ''i1'', quantity = 3, start_date = day_number 2024 1 5,
          end_date = day_number 2024 1 10\<rparr>]\<rparr>"

section \<open>Facts about requests and queries\<close>

lemma request_fst: "fst (request db) = (case outages db of [] \<Rightarrow> True | down # _ \<Rightarrow> \<not> down)"
  by (simp add: request_def split: list.splits)

lemma request_snd [simp]:
  "orders (snd (request db)) = orders db"
  "order_items (snd (request db)) = order_items db"
  "storage_items (snd (request db)) = storage_items db"
  "user_profiles (snd (request db)) = user_profiles db"
  "order_number_unique (snd (request db)) = order_number_unique db"
  "outages (snd (request db)) = tl (outages db)"
  by (simp_all add: request_def split: list.splits)

lemma request_eqD:
  "request db = (ok, db') \<Longrightarrow> ok = fst (request db) \<and> db' = snd (request db)"
  by (metis fst_conv snd_conv)

lemma request_no_outage: "outages db = [] \<Longrightarrow> request db = (True, db)"
  by (simp add: request_def)

lemma single_map: "single (map f xs) = map_option f (single xs)"
  by (cases xs rule: list.exhaust; simp add: single_def split: list.splits)

lemma update_items_number_available_snd [simp]:
  "orders (snd (update_items_number_available i n db)) = orders db"
  "order_items (snd (update_items_number_available i n db)) = order_items db"
  "user_profiles (snd (update_items_number_available i n db)) = user_profiles db"
  "order_number_unique (snd (update_items_number_available i n db)) = order_number_unique db"
  "outages (snd (update_items_number_available i n db)) = tl (outages db)"
  by (auto simp: update_items_number_available_def split: prod.splits bool.splits
        dest!: request_eqD)

lemma update_items_number_available_stock:
  "storage_items (snd (update_items_number_available i n db)) =
     (if fst (request db)
      then map (\<lambda>s. if si_id s = i then s\<lparr>items_number_available := n\<rparr> else s) (storage_items db)
      else storage_items db)"
  by (auto simp: update_items_number_available_def split: prod.splits bool.splits
        dest!: request_eqD)

lemma update_items_number_available_fst:
  "fst (update_items_number_available i n db) = fst (request db)"
  by (auto simp: update_items_number_available_def split: prod.splits bool.splits
        dest!: request_eqD)

lemma select_items_number_available_snd [simp]:
  "snd (select_items_number_available i db) = snd (request db)"
  by (auto simp: select_items_number_available_def split: prod.splits bool.splits
        dest!: request_eqD)

lemma select_items_number_available_fst:
  "fst (select_items_number_available i db) =
     (if fst (request db)
      then map_option items_number_available
             (single (filter (\<lambda>s. si_id s = i) (storage_items db)))
      else None)"
  by (auto simp: select_items_number_available_def split: prod.splits bool.splits
        dest!: request_eqD)

section \<open>The loop of confirmBooking writes no negative count\<close>

lemma unchanged_or_nonnegative_refl: "list_all2 unchanged_or_nonnegative xs xs"
  by (simp add: list_all2_refl unchanged_or_nonnegative_def)

lemma unchanged_or_nonnegative_trans:
  assumes a: "list_all2 unchanged_or_nonnegative xs ys"
    and b: "list_all2 unchanged_or_nonnegative ys zs"
  shows "list_all2 unchanged_or_nonnegative xs zs"
proof (rule list_all2_trans[OF _ a b])
  fix s t u
  assume "unchanged_or_nonnegative s t" "unchanged_or_nonnegative t u"
  then show "unchanged_or_nonnegative s u"
    by (auto simp: unchanged_or_nonnegative_def)
qed

lemma update_unchanged_or_nonnegative:
  "0 \<le> n \<Longrightarrow>
   list_all2 unchanged_or_nonnegative (storage_items db)
     (storage_items (snd (update_items_number_available i n db)))"
  by (auto simp: update_items_number_available_stock unchanged_or_nonnegative_refl
        list_all2_map2 unchanged_or_nonnegative_def intro!: list_all2_refl)

lemma confirmBooking_items_nonnegative:
  "list_all2 unchanged_or_nonnegative (storage_items db)
     (storage_items (snd (confirmBooking_items its db)))"
proof (induction its arbitrary: db)
  case Nil
  show ?case by (simp add: unchanged_or_nonnegative_refl)
next
  case (Cons item rest)
  obtain r db1 where sel: "select_items_number_available (fst item) db = (r, db1)"
    by (cases "select_items_number_available (fst item) db")
  then have db1: "db1 = snd (request db)"
    by (metis select_items_number_available_snd snd_conv)
  show ?case
  proof (cases r)
    case None
    with sel db1 show ?thesis by (simp add: unchanged_or_nonnegative_refl)
  next
    case (Some available)
    show ?thesis
    proof (cases "available < js_number (snd item)")
      case True
      with sel Some db1 show ?thesis by (simp add: unchanged_or_nonnegative_refl)
    next
      case enough: False
      obtain ok db2 where upd:
        "update_items_number_available (fst item) (available - js_number (snd item)) db1
           = (ok, db2)"
        by (cases "update_items_number_available (fst item)
                     (available - js_number (snd item)) db1")
      from enough have "0 \<le> available - js_number (snd item)" by simp
      from update_unchanged_or_nonnegative[OF this, of db1 "fst item"] upd db1
      have step: "list_all2 unchanged_or_nonnegative (storage_items db) (storage_items db2)"
        by simp
      show ?thesis
      proof (cases ok)
        case True
        with sel Some enough upd unchanged_or_nonnegative_trans[OF step Cons.IH[of db2]]
        show ?thesis by simp
      next
        case False
        with sel Some enough upd step show ?thesis by simp
      qed
    qed
  qed
qed

section \<open>Facts about confirmBooking\<close>

lemma select_order_items_snd [simp]:
  "snd (select_order_items orderId db) = snd (request db)"
  by (auto simp: select_order_items_def split: prod.splits bool.splits dest!: request_eqD)

lemma select_order_items_fst:
  "fst (select_order_items orderId db) =
     (if fst (request db) then Some (line_items db orderId) else None)"
  by (auto simp: select_order_items_def line_items_def split: prod.splits bool.splits
        dest!: request_eqD)

lemma update_order_status_snd [simp]:
  "order_items (snd (update_order_status i st db)) = order_items db"
  "storage_items (snd (update_order_status i st db)) = storage_items db"
  "user_profiles (snd (update_order_status i st db)) = user_profiles db"
  "order_number_unique (snd (update_order_status i st db)) = order_number_unique db"
  "outages (snd (update_order_status i st db)) = tl (outages db)"
  by (auto simp: update_order_status_def split: prod.splits bool.splits dest!: request_eqD)

lemma update_order_status_orders:
  "orders (snd (update_order_status i st db)) =
     (if fst (request db)
      then map (\<lambda>row. if o_id row = i then row\<lparr>o_status := st\<rparr> else row) (orders db)
      else orders db)"
  by (auto simp: update_order_status_def split: prod.splits bool.splits dest!: request_eqD)

lemma update_order_status_fst:
  "fst (update_order_status i st db) = fst (request db)"
  by (auto simp: update_order_status_def split: prod.splits bool.splits dest!: request_eqD)

lemma update_order_items_status_snd [simp]:
  "orders (snd (update_order_items_status i st db)) = orders db"
  "storage_items (snd (update_order_items_status i st db)) = storage_items db"
  "user_profiles (snd (update_order_items_status i st db)) = user_profiles db"
  "order_number_unique (snd (update_order_items_status i st db)) = order_number_unique db"
  "outages (snd (update_order_items_status i st db)) = tl (outages db)"
  by (auto simp: update_order_items_status_def split: prod.splits bool.splits dest!: request_eqD)

lemma update_order_items_status_items:
  "order_items (snd (update_order_items_status i st db)) =
     (if fst (request db)
      then map (\<lambda>r. if oi_order_id r = i then r\<lparr>oi_status := st\<rparr> else r) (order_items db)
      else order_items db)"
  by (auto simp: update_order_items_status_def split: prod.splits bool.splits dest!: request_eqD)

lemma update_order_items_status_fst:
  "fst (update_order_items_status i st db) = fst (request db)"
  by (auto simp: update_order_items_status_def split: prod.splits bool.splits dest!: request_eqD)

lemma confirmBooking_items_unfold:
  "confirmBooking_items (item # rest) db =
     (case fst (select_items_number_available (fst item) db) of
        None \<Rightarrow> (Inl (BadRequestException ''Could not fetch storage item details''), snd (request db))
      | Some available \<Rightarrow>
          if available < js_number (snd item)
          then (Inl (BadRequestException
                       (''Not enough available quantity for item '' @ fst item)), snd (request db))
          else if fst (request (snd (request db)))
          then confirmBooking_items rest
                 (snd (update_items_number_available (fst item)
                         (available - js_number (snd item)) (snd (request db))))
          else (Inl (BadRequestException (''Failed to reduce stock for item '' @ fst item)),
                snd (update_items_number_available (fst item)
                         (available - js_number (snd item)) (snd (request db)))))"
  by (simp add: case_prod_beta update_items_number_available_fst bool.case_eq_if
        split: option.splits)

declare confirmBooking_items.simps(2) [simp del]

lemma confirmBooking_items_orders [simp]:
  "orders (snd (confirmBooking_items its db)) = orders db"
  "order_items (snd (confirmBooking_items its db)) = order_items db"
  by (induction its arbitrary: db) (auto simp: confirmBooking_items_unfold split: option.splits)



lemma confirmBooking_unfold:
  "confirmBooking db orderId userId =
     (if \<not> fst (request db)
      then (Inl (BadRequestException ''Could not load order items''), snd (request db))
      else
        (case fst (confirmBooking_items (line_items db orderId) (snd (request db))) of
           Inl e \<Rightarrow> (Inl e, snd (confirmBooking_items (line_items db orderId) (snd (request db))))
         | Inr _ \<Rightarrow>
             (let db2 = snd (confirmBooking_items (line_items db orderId) (snd (request db))) in
              if \<not> fst (request db2)
              then (Inl (BadRequestException ''Could not confirm booking''),
                    snd (update_order_status orderId ''confirmed'' db2))
              else
                (let db3 = snd (update_order_status orderId ''confirmed'' db2) in
                 if \<not> fst (request db3)
                 then (Inl (BadRequestException ''Could not confirm order items''),
                       snd (update_order_items_status orderId ''confirmed'' db3))
                 else (Inr ''Booking confirmed'',
                       snd (update_order_items_status orderId ''confirmed'' db3))))))"
  by (simp add: confirmBooking_def case_prod_beta select_order_items_fst
        update_order_status_fst update_order_items_status_fst bool.case_eq_if Let_def
        split: option.splits sum.splits)











lemma confirmBooking_items_single_write:
  "storage_items (snd (confirmBooking_items [item] db)) = storage_items db
   \<or> (\<exists>available.
         fst (select_items_number_available (fst item) db) = Some available
         \<and> js_number (snd item) \<le> available
         \<and> storage_items (snd (confirmBooking_items [item] db))
             = map (\<lambda>s. if si_id s = fst item
                         then s\<lparr>items_number_available := available - js_number (snd item)\<rparr>
                         else s)
                 (storage_items db))"
  by (auto simp: confirmBooking_items_unfold update_items_number_available_stock
        split: option.splits)

text \<open>
  C10. Within a call of \<^verbatim>\<open>confirmBooking\<close>, the cached count of an item is written
  only after the test that it is at least the quantity of the line item: one iteration
  of the loop either leaves the counts as they are or has read a count that is at
  least the quantity and writes the difference. So every count in
  \<^verbatim>\<open>storage_items\<close> after any number of iterations of the loop, and after the
  whole call, is either the count it was before or non-negative.
\<close>

theorem confirmBooking_writes_no_negative_count:
  "(storage_items (snd (confirmBooking_items [item] db)) = storage_items db
    \<or> (\<exists>available.
          fst (select_items_number_available (fst item) db) = Some available
          \<and> js_number (snd item) \<le> available
          \<and> storage_items (snd (confirmBooking_items [item] db))
              = map (\<lambda>s. if si_id s = fst item
                          then s\<lparr>items_number_available := available - js_number (snd item)\<rparr>
                          else s)
                  (storage_items db)))
   \<and> list_all2 unchanged_or_nonnegative (storage_items db)
     (storage_items (snd (confirmBooking_items its db)))
   \<and> list_all2 unchanged_or_nonnegative (storage_items db)
     (storage_items (snd (confirmBooking db orderId userId)))"
proof -
  have "list_all2 unchanged_or_nonnegative (storage_items (snd (request db)))
     (storage_items (snd (confirmBooking_items (line_items db orderId) (snd (request db)))))"
    by (rule confirmBooking_items_nonnegative)
  then have "list_all2 unchanged_or_nonnegative (storage_items db)
     (storage_items (snd (confirmBooking db orderId userId)))"
    by (simp add: confirmBooking_unfold Let_def unchanged_or_nonnegative_refl split: sum.splits)
  with confirmBooking_items_nonnegative[of db its]
    confirmBooking_items_single_write[of item db]
  show ?thesis by blast
qed

section \<open>A line item short of stock stops the confirmation\<close>

text \<open>While the quantities are not negative, the loop of \<^verbatim>\<open>confirmBooking\<close> never
  raises a cached count, so a line item that is short of stock before the loop is
  short of stock when the loop reaches it.\<close>

lemma filter_not_raised:
  assumes "list_all2 (\<lambda>s s'. si_id s' = si_id s \<and> items_number_available s' \<le> items_number_available s) xs ys"
  shows "list_all2 (\<lambda>s s'. si_id s' = si_id s \<and> items_number_available s' \<le> items_number_available s)
           (filter (\<lambda>s. si_id s = i) xs) (filter (\<lambda>s. si_id s = i) ys)"
  using assms by (induction rule: list_all2_induct) auto

lemma single_not_raised:
  assumes rel: "list_all2 (\<lambda>s s'. si_id s' = si_id s \<and> items_number_available s' \<le> items_number_available s) xs ys"
    and one: "single (filter (\<lambda>s. si_id s = i) xs) = Some s"
  shows "\<exists>s'. single (filter (\<lambda>s. si_id s = i) ys) = Some s'
            \<and> items_number_available s' \<le> items_number_available s"
proof -
  from one have "filter (\<lambda>s. si_id s = i) xs = [s]"
    by (auto simp: single_def split: list.splits)
  with filter_not_raised[OF rel, of i]
  obtain s' where "filter (\<lambda>s. si_id s = i) ys = [s']"
    and "items_number_available s' \<le> items_number_available s"
    by (auto simp: list_all2_Cons1)
  then show ?thesis by (auto simp: single_def)
qed

lemma decrement_not_raised:
  assumes one: "single (filter (\<lambda>s. si_id s = i) xs) = Some r"
    and n: "n \<le> items_number_available r"
  shows "list_all2 (\<lambda>s s'. si_id s' = si_id s \<and> items_number_available s' \<le> items_number_available s)
           xs (map (\<lambda>s. if si_id s = i then s\<lparr>items_number_available := n\<rparr> else s) xs)"
proof -
  from one have only: "filter (\<lambda>s. si_id s = i) xs = [r]"
    by (auto simp: single_def split: list.splits)
  have "s = r" if "s \<in> set xs" "si_id s = i" for s
  proof -
    from that have "s \<in> set (filter (\<lambda>s. si_id s = i) xs)" by simp
    with only show ?thesis by simp
  qed
  with n show ?thesis
    by (auto simp: list_all2_map2 list_all2_same)
qed


lemma confirmBooking_items_fails:
  assumes "it \<in> set its"
    and "single (filter (\<lambda>s. si_id s = fst it) (storage_items db)) = Some s"
    and "items_number_available s < js_number (snd it)"
    and "\<forall>x \<in> set its. 0 \<le> js_number (snd x)"
  shows "\<exists>e. fst (confirmBooking_items its db) = Inl e"
  using assms
proof (induction its arbitrary: db s)
  case Nil
  then show ?case by simp
next
  case (Cons item rest)
  show ?case
  proof (cases "fst (select_items_number_available (fst item) db)")
    case None
    then show ?thesis by (simp add: confirmBooking_items_unfold)
  next
    case (Some available)
    then have ok: "fst (request db)"
      and sel: "map_option items_number_available
                  (single (filter (\<lambda>s. si_id s = fst item) (storage_items db))) = Some available"
      by (auto simp: select_items_number_available_fst split: if_splits)
    then obtain r where r: "single (filter (\<lambda>s. si_id s = fst item) (storage_items db)) = Some r"
      and avail: "items_number_available r = available"
      by auto
    let ?n = "available - js_number (snd item)"
    let ?db2 = "snd (update_items_number_available (fst item) ?n (snd (request db)))"
    show ?thesis
    proof (cases "available < js_number (snd item) \<or> \<not> fst (request (snd (request db)))")
      case True
      with Some show ?thesis by (auto simp: confirmBooking_items_unfold)
    next
      case False
      then have enough: "\<not> available < js_number (snd item)"
        and ok2: "fst (request (snd (request db)))" by simp_all
      from Cons.prems(4) have "0 \<le> js_number (snd item)" by simp
      with avail have "?n \<le> items_number_available r" by simp
      from decrement_not_raised[OF r this] ok2
      have rel: "list_all2 (\<lambda>s s'. si_id s' = si_id s
                    \<and> items_number_available s' \<le> items_number_available s)
                  (storage_items db) (storage_items ?db2)"
        by (simp add: update_items_number_available_stock)
      have "it \<in> set rest"
      proof (rule ccontr)
        assume "it \<notin> set rest"
        with Cons.prems(1) have "it = item" by simp
        with Cons.prems(2,3) r avail enough show False by simp
      qed
      moreover from single_not_raised[OF rel Cons.prems(2)]
      obtain s' where "single (filter (\<lambda>s. si_id s = fst it) (storage_items ?db2)) = Some s'"
        and "items_number_available s' \<le> items_number_available s" by blast
      moreover from this Cons.prems(3) have "items_number_available s' < js_number (snd it)"
        by simp
      moreover from Cons.prems(4) have "\<forall>x \<in> set rest. 0 \<le> js_number (snd x)" by simp
      ultimately have "\<exists>e. fst (confirmBooking_items rest ?db2) = Inl e"
        by (intro Cons.IH) auto
      with Some enough ok2 show ?thesis by (simp add: confirmBooking_items_unfold)
    qed
  qed
qed

lemma not_enough_neq [simp]:
  "''Could not load order items'' \<noteq> ''Not enough available quantity for item '' @ x"
  "''Could not confirm booking'' \<noteq> ''Not enough available quantity for item '' @ x"
  "''Could not confirm order items'' \<noteq> ''Not enough available quantity for item '' @ x"
  by simp_all

text \<open>
  C3, as the code has it. If a line item of the booking asks for more than the cached
  count of its item (the quantities of the booking not being negative), the whole
  confirmation fails, no line item changes its status and the status of the booking
  stays what it was, pending for a pending booking; the same holds whenever the
  confirmation fails with the error that names an item short of stock.
\<close>

theorem confirmBooking_failure_keeps_statuses:
  "(item \<in> set (line_items db orderId) \<and> confirmBooking_lacks db item
      \<and> (\<forall>it \<in> set (line_items db orderId). 0 \<le> js_number (snd it))
     \<longrightarrow> (\<exists>e. fst (confirmBooking db orderId userId) = Inl e)
         \<and> orders (snd (confirmBooking db orderId userId)) = orders db
         \<and> order_items (snd (confirmBooking db orderId userId)) = order_items db)
   \<and> (fst (confirmBooking db orderId userId)
         = Inl (BadRequestException (''Not enough available quantity for item '' @ x))
     \<longrightarrow> orders (snd (confirmBooking db orderId userId)) = orders db
         \<and> order_items (snd (confirmBooking db orderId userId)) = order_items db)"
proof (rule conjI; rule impI)
  assume a: "item \<in> set (line_items db orderId) \<and> confirmBooking_lacks db item
      \<and> (\<forall>it \<in> set (line_items db orderId). 0 \<le> js_number (snd it))"
  then obtain s where s: "single (filter (\<lambda>s. si_id s = fst item) (storage_items db)) = Some s"
    and less: "items_number_available s < js_number (snd item)"
    by (auto simp: confirmBooking_lacks_def split: option.splits)
  from a s less
    confirmBooking_items_fails[of item "line_items db orderId" "snd (request db)" s]
  have "\<exists>e. fst (confirmBooking_items (line_items db orderId) (snd (request db))) = Inl e"
    by simp
  then show "(\<exists>e. fst (confirmBooking db orderId userId) = Inl e)
         \<and> orders (snd (confirmBooking db orderId userId)) = orders db
         \<and> order_items (snd (confirmBooking db orderId userId)) = order_items db"
    by (auto simp: confirmBooking_unfold)
next
  assume "fst (confirmBooking db orderId userId)
         = Inl (BadRequestException (''Not enough available quantity for item '' @ x))"
  then show "orders (snd (confirmBooking db orderId userId)) = orders db
         \<and> order_items (snd (confirmBooking db orderId userId)) = order_items db"
    by (auto simp: confirmBooking_unfold Let_def split: if_splits sum.splits)
qed

theorem confirmBooking_failure_keeps_statuses_witness:
  "(''i2'', Some 1) \<in> set (line_items short_stock_store ''b1'')
   \<and> confirmBooking_lacks short_stock_store (''i2'', Some 1)
   \<and> list_all (\<lambda>it. 0 \<le> js_number (snd it)) (line_items short_stock_store ''b1'')
   \<and> fst (confirmBooking short_stock_store ''b1'' ''a1'')
       = Inl (BadRequestException (''Not enough available quantity for item '' @ ''i2''))
   \<and> orders (snd (confirmBooking short_stock_store ''b1'' ''a1'')) = orders short_stock_store
   \<and> order_items (snd (confirmBooking short_stock_store ''b1'' ''a1''))
       = order_items short_stock_store"
proof -
  have member: "(''i2'', Some 1) \<in> set (line_items short_stock_store ''b1'')" by code_simp
  have lacks: "confirmBooking_lacks short_stock_store (''i2'', Some 1)" by code_simp
  have nonneg: "list_all (\<lambda>it. 0 \<le> js_number (snd it)) (line_items short_stock_store ''b1'')"
    by code_simp
  have fails: "fst (confirmBooking short_stock_store ''b1'' ''a1'')
       = Inl (BadRequestException (''Not enough available quantity for item '' @ ''i2''))"
    by code_simp
  from nonneg have "\<forall>it \<in> set (line_items short_stock_store ''b1''). 0 \<le> js_number (snd it)"
    by (simp add: list_all_iff)
  with confirmBooking_failure_keeps_statuses
         [of "(''i2'', Some 1)" short_stock_store "''b1''" "''a1''" "''i2''"]
       member lacks nonneg fails
  show ?thesis by blast
qed

text \<open>
  The claim C3 as stated fails: in \<open>short_stock_store\<close> the second line item of
  booking \<open>b1\<close> is short of stock, the confirmation fails, and the cached count of the
  item of the first line item has been decremented from five to three.
\<close>

theorem confirmBooking_partial_decrement_counterexample:
  "fst (confirmBooking short_stock_store ''b1'' ''a1'')
     = Inl (BadRequestException ''Not enough available quantity for item i2'')
   \<and> map items_number_available (storage_items short_stock_store) = [5, 0]
   \<and> map items_number_available (storage_items (snd (confirmBooking short_stock_store ''b1'' ''a1'')))
       = [3, 0]"
  by code_simp

section \<open>Facts about createBooking\<close>

lemma createBooking_overlappingOrders_snd [simp]:
  "snd (createBooking_overlappingOrders item db) = snd (request db)"
  by (auto simp: createBooking_overlappingOrders_def split: prod.splits bool.splits
        dest!: request_eqD)

lemma createBooking_overlappingOrders_fst:
  "fst (createBooking_overlappingOrders item db) =
     (if fst (request db)
      then Some (map oi_quantity
             (filter (\<lambda>r. oi_item_id r = item_id item
                        \<and> (oi_start_date r \<le> end_date item \<and> oi_end_date r \<ge> start_date item))
                (order_items db)))
      else None)"
  by (auto simp: createBooking_overlappingOrders_def split: prod.splits bool.splits
        dest!: request_eqD)

lemma select_items_number_total_snd [simp]:
  "snd (select_items_number_total i db) = snd (request db)"
  by (auto simp: select_items_number_total_def split: prod.splits bool.splits dest!: request_eqD)

lemma select_items_number_total_fst:
  "fst (select_items_number_total i db) =
     (if fst (request db)
      then map_option items_number_total (single (filter (\<lambda>s. si_id s = i) (storage_items db)))
      else None)"
  by (auto simp: select_items_number_total_def split: prod.splits bool.splits dest!: request_eqD)

lemma select_user_profile_snd [simp]:
  "snd (select_user_profile u db) = snd (request db)"
  by (auto simp: select_user_profile_def split: prod.splits bool.splits dest!: request_eqD)

lemma select_user_profile_fst:
  "fst (select_user_profile u db) =
     (if fst (request db) then single (filter (\<lambda>p. up_id p = u) (user_profiles db)) else None)"
  by (auto simp: select_user_profile_def split: prod.splits bool.splits dest!: request_eqD)

lemma createBooking_check_unfold:
  "createBooking_check (item # rest) db =
     (if \<not> fst (request db)
      then (Inl (BadRequestException ''Could not check overlapping bookings''), snd (request db))
      else
        (case fst (select_items_number_total (item_id item) (snd (request db))) of
           None \<Rightarrow> (Inl (BadRequestException ''Item data not found''), snd (request (snd (request db))))
         | Some itemData_total \<Rightarrow>
             if reduce_quantity (map oi_quantity
                  (filter (\<lambda>r. oi_item_id r = item_id item
                             \<and> (oi_start_date r \<le> end_date item \<and> oi_end_date r \<ge> start_date item))
                     (order_items db)))
                + quantity item > itemData_total
             then (Inl (BadRequestException
                          (''Not enough quantity available for item '' @ item_id item)),
                   snd (request (snd (request db))))
             else createBooking_check rest (snd (request (snd (request db))))))"
  by (simp add: case_prod_beta createBooking_overlappingOrders_fst Let_def
        split: option.splits)

declare createBooking_check.simps(2) [simp del]

lemma createBooking_check_tables [simp]:
  "orders (snd (createBooking_check its db)) = orders db"
  "order_items (snd (createBooking_check its db)) = order_items db"
  "storage_items (snd (createBooking_check its db)) = storage_items db"
  "user_profiles (snd (createBooking_check its db)) = user_profiles db"
  "order_number_unique (snd (createBooking_check its db)) = order_number_unique db"
  by (induction its arbitrary: db; simp add: createBooking_check_unfold split: option.splits)+

lemma createBooking_exceeds_tables:
  "order_items db' = order_items db \<Longrightarrow> storage_items db' = storage_items db \<Longrightarrow>
   createBooking_exceeds db' item = createBooking_exceeds db item"
  by (simp add: createBooking_exceeds_def split: option.splits)

lemma createBooking_check_fails:
  "item \<in> set its \<Longrightarrow> createBooking_exceeds db item \<Longrightarrow>
   \<exists>e. fst (createBooking_check its db) = Inl e"
proof (induction its arbitrary: db)
  case Nil
  then show ?case by simp
next
  case (Cons first rest)
  let ?db2 = "snd (request (snd (request db)))"
  have same: "createBooking_exceeds ?db2 item = createBooking_exceeds db item"
    by (rule createBooking_exceeds_tables) simp_all
  show ?case
  proof (cases "item = first")
    case True
    with Cons.prems(2) show ?thesis
      by (auto simp: createBooking_check_unfold createBooking_exceeds_def
            select_items_number_total_fst split: option.splits)
  next
    case False
    with Cons.prems have "item \<in> set rest" by simp
    from Cons.IH[OF this, of ?db2] same Cons.prems(2)
    have "\<exists>e. fst (createBooking_check rest ?db2) = Inl e" by simp
    then show ?thesis
      by (auto simp: createBooking_check_unfold split: option.splits)
  qed
qed

lemma createBooking_check_names:
  "fst (createBooking_check its db)
     = Inl (BadRequestException (''Not enough quantity available for item '' @ x)) \<Longrightarrow>
   \<exists>item \<in> set its. item_id item = x \<and> createBooking_exceeds db item"
proof (induction its arbitrary: db)
  case Nil
  then show ?case by simp
next
  case (Cons first rest)
  let ?db2 = "snd (request (snd (request db)))"
  have same: "createBooking_exceeds ?db2 item = createBooking_exceeds db item" for item
    by (rule createBooking_exceeds_tables) simp_all
  from Cons.prems have
    "(item_id first = x \<and> createBooking_exceeds db first)
     \<or> fst (createBooking_check rest ?db2)
         = Inl (BadRequestException (''Not enough quantity available for item '' @ x))"
    by (auto simp: createBooking_check_unfold createBooking_exceeds_def
          select_items_number_total_fst split: option.splits if_splits)
  with Cons.IH[of ?db2] same show ?case by auto
qed

lemma createBooking_check_passes:
  "outages db = [] \<Longrightarrow>
   \<forall>item \<in> set its. single (filter (\<lambda>s. si_id s = item_id item) (storage_items db)) \<noteq> None
      \<and> \<not> createBooking_exceeds db item \<Longrightarrow>
   createBooking_check its db = (Inr (), db)"
  by (induction its)
     (auto simp: createBooking_check_unfold request_no_outage createBooking_exceeds_def
        select_items_number_total_fst)


lemma createBooking_insert_error:
  "fst (createBooking_insert orderId its db)
     \<noteq> Inl (BadRequestException (''Not enough quantity available for item '' @ x))"
  by (induction its arbitrary: db)
     (auto simp: case_prod_beta Let_def bool.case_eq_if split: option.splits)

lemma insert_order_snd [simp]:
  "order_items (snd (insert_order row db)) = order_items db"
  "storage_items (snd (insert_order row db)) = storage_items db"
  "user_profiles (snd (insert_order row db)) = user_profiles db"
  "order_number_unique (snd (insert_order row db)) = order_number_unique db"
  "outages (snd (insert_order row db)) = tl (outages db)"
  by (auto simp: insert_order_def split: prod.splits bool.splits dest!: request_eqD)

lemma insert_order_refused:
  "order_number_unique db \<Longrightarrow> o_order_number row \<in> set (map o_order_number (orders db)) \<Longrightarrow>
   insert_order row db = (None, snd (request db))"
  by (auto simp: insert_order_def split: prod.splits bool.splits dest!: request_eqD)

lemma createBooking_unfold:
  "createBooking db dto nowISO rnd newId =
     (if user_id dto = []
      then (Inl (BadRequestException ''No userId found: user_id is required''), db)
      else
        (case fst (select_user_profile (user_id dto) db) of
           None \<Rightarrow> (Inl (BadRequestException ''User not found''), snd (request db))
         | Some user \<Rightarrow>
             (let c = createBooking_check (items dto) (snd (request db)) in
              case fst c of
                Inl e \<Rightarrow> (Inl e, snd c)
              | Inr _ \<Rightarrow>
                  (let i = insert_order
                             \<lparr>o_id = newId, o_user_id = up_id user, o_status = ''pending'',
                              o_order_number = generateOrderNumber nowISO rnd\<rparr> (snd c) in
                   case fst i of
                     None \<Rightarrow> (Inl (BadRequestException ''Could not create order''), snd i)
                   | Some order \<Rightarrow>
                       (let l = createBooking_insert (o_id order) (items dto) (snd i) in
                        case fst l of
                          Inl e \<Rightarrow> (Inl e, snd l)
                        | Inr _ \<Rightarrow> (Inr order, snd l))))))"
  by (simp add: createBooking_def case_prod_beta Let_def split: option.splits sum.splits)

lemma createBooking_check_first_exceeding:
  assumes "outages db = []"
    and "\<forall>it \<in> set its. single (filter (\<lambda>s. si_id s = item_id it) (storage_items db)) \<noteq> None"
  shows "createBooking_check its db =
           (case find (createBooking_exceeds db) its of
              None \<Rightarrow> (Inr (), db)
            | Some it \<Rightarrow>
                (Inl (BadRequestException
                        (''Not enough quantity available for item '' @ item_id it)), db))"
  using assms
  by (induction its)
     (auto simp: createBooking_check_unfold request_no_outage createBooking_exceeds_def
        select_items_number_total_fst)

lemma createBooking_names_first_exceeding:
  assumes "outages db = []"
    and "user_id dto \<noteq> []"
    and "single (filter (\<lambda>p. up_id p = user_id dto) (user_profiles db)) \<noteq> None"
    and "\<forall>it \<in> set (items dto).
           single (filter (\<lambda>s. si_id s = item_id it) (storage_items db)) \<noteq> None"
    and "find (createBooking_exceeds db) (items dto) = Some item"
  shows "createBooking db dto nowISO rnd newId =
           (Inl (BadRequestException
                   (''Not enough quantity available for item '' @ item_id item)), db)"
proof -
  from assms(1) have rq: "request db = (True, db)" by (rule request_no_outage)
  from assms(3) obtain user where
    "single (filter (\<lambda>p. up_id p = user_id dto) (user_profiles db)) = Some user" by auto
  with rq have user: "fst (select_user_profile (user_id dto) db) = Some user"
    by (simp add: select_user_profile_fst)
  from createBooking_check_first_exceeding[OF assms(1,4)] assms(5)
  have "createBooking_check (items dto) db =
          (Inl (BadRequestException
                  (''Not enough quantity available for item '' @ item_id item)), db)"
    by simp
  with assms(2) user rq show ?thesis
    by (simp add: createBooking_unfold)
qed

lemma createBooking_check_before_insert:
  "(item \<in> set (items dto) \<and> createBooking_exceeds db item
     \<longrightarrow> (\<exists>e. fst (createBooking db dto nowISO rnd newId) = Inl e)
         \<and> orders (snd (createBooking db dto nowISO rnd newId)) = orders db
         \<and> order_items (snd (createBooking db dto nowISO rnd newId)) = order_items db)
   \<and> (fst (createBooking db dto nowISO rnd newId)
         = Inl (BadRequestException (''Not enough quantity available for item '' @ x))
     \<longrightarrow> (\<exists>item \<in> set (items dto). item_id item = x \<and> createBooking_exceeds db item)
         \<and> orders (snd (createBooking db dto nowISO rnd newId)) = orders db
         \<and> order_items (snd (createBooking db dto nowISO rnd newId)) = order_items db)"
proof (rule conjI; rule impI)
  let ?db1 = "snd (request db)"
  have same: "createBooking_exceeds ?db1 it = createBooking_exceeds db it" for it
    by (rule createBooking_exceeds_tables) simp_all
  assume "item \<in> set (items dto) \<and> createBooking_exceeds db item"
  with same have "\<exists>e. fst (createBooking_check (items dto) ?db1) = Inl e"
    by (intro createBooking_check_fails[of item]) simp_all
  then show "(\<exists>e. fst (createBooking db dto nowISO rnd newId) = Inl e)
         \<and> orders (snd (createBooking db dto nowISO rnd newId)) = orders db
         \<and> order_items (snd (createBooking db dto nowISO rnd newId)) = order_items db"
    by (auto simp: createBooking_unfold Let_def split: option.splits)
next
  let ?db1 = "snd (request db)"
  have same: "createBooking_exceeds ?db1 it = createBooking_exceeds db it" for it
    by (rule createBooking_exceeds_tables) simp_all
  define err where
    "err = BadRequestException (''Not enough quantity available for item '' @ x)"
  assume "fst (createBooking db dto nowISO rnd newId)
         = Inl (BadRequestException (''Not enough quantity available for item '' @ x))"
  then have failed: "fst (createBooking db dto nowISO rnd newId) = Inl err"
    by (simp add: err_def)
  have other:
    "BadRequestException ''No userId found: user_id is required'' \<noteq> err"
    "BadRequestException ''User not found'' \<noteq> err"
    "BadRequestException ''Could not create order'' \<noteq> err"
    by (simp_all add: err_def)
  have loop: "fst (createBooking_insert orderId its d) \<noteq> Inl err" for orderId its d
    unfolding err_def by (rule createBooking_insert_error)
  from failed other loop have check: "fst (createBooking_check (items dto) ?db1) = Inl err"
    by (auto simp: createBooking_unfold Let_def split: option.splits sum.splits if_splits)
  from createBooking_check_names[of "items dto" ?db1 x] check same
  have "\<exists>item \<in> set (items dto). item_id item = x \<and> createBooking_exceeds db item"
    by (simp add: err_def)
  moreover from check
  have "orders (snd (createBooking db dto nowISO rnd newId)) = orders db
         \<and> order_items (snd (createBooking db dto nowISO rnd newId)) = order_items db"
    by (auto simp: createBooking_unfold Let_def split: option.splits)
  ultimately show "(\<exists>item \<in> set (items dto). item_id item = x \<and> createBooking_exceeds db item)
         \<and> orders (snd (createBooking db dto nowISO rnd newId)) = orders db
         \<and> order_items (snd (createBooking db dto nowISO rnd newId)) = order_items db"
    by blast
qed


text \<open>
  C2, as the code has it. \<^verbatim>\<open>createBooking\<close> validates every line item before it
  writes anything: if the requested quantity of any line item exceeds what the check
  of the code leaves for it, the operation fails and neither a booking row nor a line
  item has been written. The failure names the offending item: when the store answers
  and the user and the requested items are found, the operation fails with the error
  "Not enough quantity available for item \<open>x\<close>" for the first line item that exceeds,
  and the store is left as it was; and whenever the operation fails with that error,
  \<open>x\<close> is the item of a requested line item that exceeds, and nothing has been written.
\<close>

theorem createBooking_validates_before_writing:
  "(item \<in> set (items dto) \<and> createBooking_exceeds db item
     \<longrightarrow> (\<exists>e. fst (createBooking db dto nowISO rnd newId) = Inl e)
         \<and> orders (snd (createBooking db dto nowISO rnd newId)) = orders db
         \<and> order_items (snd (createBooking db dto nowISO rnd newId)) = order_items db)
   \<and> (outages db = [] \<and> user_id dto \<noteq> []
        \<and> single (filter (\<lambda>p. up_id p = user_id dto) (user_profiles db)) \<noteq> None
        \<and> (\<forall>it \<in> set (items dto).
              single (filter (\<lambda>s. si_id s = item_id it) (storage_items db)) \<noteq> None)
        \<and> find (createBooking_exceeds db) (items dto) = Some offending
     \<longrightarrow> createBooking db dto nowISO rnd newId
           = (Inl (BadRequestException
                     (''Not enough quantity available for item '' @ item_id offending)), db))
   \<and> (fst (createBooking db dto nowISO rnd newId)
         = Inl (BadRequestException (''Not enough quantity available for item '' @ x))
     \<longrightarrow> (\<exists>item \<in> set (items dto). item_id item = x \<and> createBooking_exceeds db item)
         \<and> orders (snd (createBooking db dto nowISO rnd newId)) = orders db
         \<and> order_items (snd (createBooking db dto nowISO rnd newId)) = order_items db)"
  using createBooking_check_before_insert[of item dto db nowISO rnd newId x]
    createBooking_names_first_exceeding[of db dto offending nowISO rnd newId]
  by blast

theorem createBooking_validates_before_writing_witness:
  "\<lparr>item_id = ''i2'', quantity = 6, start_date = day_number 2024 1 1,
     end_date = day_number 2024 1 5\<rparr> \<in> set (items too_many_request)
   \<and> createBooking_exceeds empty_store
        \<lparr>item_id = ''i2'', quantity = 6, start_date = day_number 2024 1 1,
         end_date = day_number 2024 1 5\<rparr>
   \<and> outages empty_store = [] \<and> user_id too_many_request \<noteq> []
   \<and> single (filter (\<lambda>p. up_id p = user_id too_many_request) (user_profiles empty_store)) \<noteq> None
   \<and> list_all (\<lambda>it. single (filter (\<lambda>s. si_id s = item_id it) (storage_items empty_store)) \<noteq> None)
        (items too_many_request)
   \<and> find (createBooking_exceeds empty_store) (items too_many_request)
       = Some \<lparr>item_id = ''i2'', quantity = 6, start_date = day_number 2024 1 1,
                end_date = day_number 2024 1 5\<rparr>
   \<and> createBooking empty_store too_many_request ''2024-01-01T10:00:00.000Z'' 5 ''b9''
       = (Inl (BadRequestException (''Not enough quantity available for item '' @ ''i2'')),
          empty_store)
   \<and> orders (snd (createBooking empty_store too_many_request ''2024-01-01T10:00:00.000Z'' 5 ''b9''))
       = orders empty_store
   \<and> order_items (snd (createBooking empty_store too_many_request ''2024-01-01T10:00:00.000Z'' 5 ''b9''))
       = order_items empty_store"
proof -
  let ?item = "\<lparr>item_id = ''i2'', quantity = 6, start_date = day_number 2024 1 1,
     end_date = day_number 2024 1 5\<rparr>"
  have member: "?item \<in> set (items too_many_request)" by code_simp
  have exceeds: "createBooking_exceeds empty_store ?item" by code_simp
  have answered: "outages empty_store = []" by code_simp
  have actor: "user_id too_many_request \<noteq> []" by code_simp
  have known: "single (filter (\<lambda>p. up_id p = user_id too_many_request)
                  (user_profiles empty_store)) \<noteq> None" by code_simp
  have present: "list_all (\<lambda>it. single (filter (\<lambda>s. si_id s = item_id it)
                    (storage_items empty_store)) \<noteq> None) (items too_many_request)"
    by code_simp
  then have present': "\<forall>it \<in> set (items too_many_request).
      single (filter (\<lambda>s. si_id s = item_id it) (storage_items empty_store)) \<noteq> None"
    by (simp add: list_all_iff)
  have first: "find (createBooking_exceeds empty_store) (items too_many_request) = Some ?item"
    by code_simp
  from createBooking_validates_before_writing
         [where item = ?item and dto = too_many_request and db = empty_store
            and nowISO = "''2024-01-01T10:00:00.000Z''" and rnd = 5 and newId = "''b9''"
            and x = "''i2''" and offending = ?item]
       member exceeds answered actor known present' first
  have "createBooking empty_store too_many_request ''2024-01-01T10:00:00.000Z'' 5 ''b9''
       = (Inl (BadRequestException (''Not enough quantity available for item '' @ ''i2'')),
          empty_store)
     \<and> orders (snd (createBooking empty_store too_many_request
                       ''2024-01-01T10:00:00.000Z'' 5 ''b9'')) = orders empty_store
     \<and> order_items (snd (createBooking empty_store too_many_request
                       ''2024-01-01T10:00:00.000Z'' 5 ''b9'')) = order_items empty_store"
    by simp
  with member exceeds answered actor known present first show ?thesis by blast
qed

text \<open>
  The claim C2 as stated fails for a step that fails partway: the store answers the
  first nine requests and fails the tenth, which is the insert of the second line
  item. \<^verbatim>\<open>createBooking\<close> throws, and the booking row and the first line item stay
  in the store.
\<close>

theorem createBooking_partial_write_counterexample:
  "orders tenth_request_fails = [] \<and> order_items tenth_request_fails = []
   \<and> fst (createBooking tenth_request_fails two_items_request ''2024-01-01T10:00:00.000Z'' 5 ''b9'')
       = Inl (BadRequestException ''Could not create order items'')
   \<and> map o_id (orders (snd (createBooking tenth_request_fails two_items_request
                               ''2024-01-01T10:00:00.000Z'' 5 ''b9''))) = [''b9'']
   \<and> map (\<lambda>r. (oi_order_id r, oi_item_id r))
        (order_items (snd (createBooking tenth_request_fails two_items_request
                             ''2024-01-01T10:00:00.000Z'' 5 ''b9''))) = [(''b9'', ''i1'')]"
  by code_simp

text \<open>
  C8, as the code has it. \<^verbatim>\<open>createBooking\<close> generates one order number and inserts
  the order once. When the user is known, every request is answered and every line
  item passes the check, a generated number that is already taken, the column being
  unique, makes the operation fail at once with the error "Could not create order";
  nothing is retried and the store is left as it was.
\<close>

theorem createBooking_collision_fails_at_once:
  assumes "user_id dto \<noteq> []"
    and "single (filter (\<lambda>p. up_id p = user_id dto) (user_profiles db)) = Some user"
    and "outages db = []"
    and "\<forall>item \<in> set (items dto).
           single (filter (\<lambda>s. si_id s = item_id item) (storage_items db)) \<noteq> None
           \<and> \<not> createBooking_exceeds db item"
    and "order_number_unique db"
    and "generateOrderNumber nowISO rnd \<in> set (map o_order_number (orders db))"
  shows "createBooking db dto nowISO rnd newId
           = (Inl (BadRequestException ''Could not create order''), db)"
proof -
  from assms(3) have rq: "request db = (True, db)" by (rule request_no_outage)
  from assms(3,4) have check: "createBooking_check (items dto) db = (Inr (), db)"
    by (rule createBooking_check_passes)
  let ?row = "\<lparr>o_id = newId, o_user_id = up_id user, o_status = ''pending'',
               o_order_number = generateOrderNumber nowISO rnd\<rparr>"
  from assms(5,6) rq have "insert_order ?row db = (None, db)"
    by (simp add: insert_order_refused)
  with assms(1,2) rq check show ?thesis
    by (simp add: createBooking_unfold select_user_profile_fst)
qed

theorem createBooking_collision_fails_at_once_witness:
  "user_id february_request \<noteq> []
   \<and> single (filter (\<lambda>p. up_id p = user_id february_request) (user_profiles confirmed_store))
       = Some \<lparr>up_id = ''u2'', up_role = ''user''\<rparr>
   \<and> outages confirmed_store = []
   \<and> list_all (\<lambda>item. single (filter (\<lambda>s. si_id s = item_id item) (storage_items confirmed_store))
                          \<noteq> None
                        \<and> \<not> createBooking_exceeds confirmed_store item) (items february_request)
   \<and> order_number_unique confirmed_store
   \<and> generateOrderNumber ''2024-01-01T10:00:00.000Z'' 5
       \<in> set (map o_order_number (orders confirmed_store))
   \<and> createBooking confirmed_store february_request ''2024-01-01T10:00:00.000Z'' 5 ''b9''
       = (Inl (BadRequestException ''Could not create order''), confirmed_store)"
proof -
  have h1: "user_id february_request \<noteq> []" by code_simp
  have h2: "single (filter (\<lambda>p. up_id p = user_id february_request) (user_profiles confirmed_store))
       = Some \<lparr>up_id = ''u2'', up_role = ''user''\<rparr>" by code_simp
  have h3: "outages confirmed_store = []" by code_simp
  have h4: "list_all (\<lambda>item. single (filter (\<lambda>s. si_id s = item_id item) (storage_items confirmed_store))
                          \<noteq> None
                        \<and> \<not> createBooking_exceeds confirmed_store item) (items february_request)"
    by code_simp
  have h5: "order_number_unique confirmed_store" by code_simp
  have h6: "generateOrderNumber ''2024-01-01T10:00:00.000Z'' 5
       \<in> set (map o_order_number (orders confirmed_store))" by code_simp
  from h4 have h4': "\<forall>item \<in> set (items february_request).
           single (filter (\<lambda>s. si_id s = item_id item) (storage_items confirmed_store)) \<noteq> None
           \<and> \<not> createBooking_exceeds confirmed_store item"
    by (simp add: list_all_iff)
  from createBooking_collision_fails_at_once[OF h1 h2 h3 h4' h5 h6, of "''b9''"] h1 h2 h3 h4 h5 h6
  show ?thesis by blast
qed

text \<open>
  The claim C8 as stated fails: in \<open>confirmed_store\<close> the number drawn with the
  disambiguator 5 is taken, and \<^verbatim>\<open>createBooking\<close> fails with a bad-request error
  without another draw, although the next disambiguator, 6, gives a free number with
  which the same request succeeds.
\<close>

theorem createBooking_no_retry_counterexample:
  "order_number_unique confirmed_store
   \<and> map o_order_number (orders confirmed_store) = [''ORD-20240101-0005'']
   \<and> generateOrderNumber ''2024-01-01T10:00:00.000Z'' 5 = ''ORD-20240101-0005''
   \<and> fst (createBooking confirmed_store february_request ''2024-01-01T10:00:00.000Z'' 5 ''b9'')
       = Inl (BadRequestException ''Could not create order'')
   \<and> fst (createBooking confirmed_store february_request ''2024-01-01T10:00:00.000Z'' 6 ''b9'')
       = Inr \<lparr>o_id = ''b9'', o_user_id = ''u2'', o_status = ''pending'',
              o_order_number = ''ORD-20240101-0006''\<rparr>"
  by code_simp

section \<open>The overlap queries\<close>

lemma reduce_quantity_sum: "reduce_quantity qs = sum_list (map js_number qs)"
proof -
  have "foldl (\<lambda>sum q. sum + js_number q) a qs = a + sum_list (map js_number qs)" for a
    by (induction qs arbitrary: a) simp_all
  then show ?thesis by (simp add: reduce_quantity_def)
qed

lemma calculateAvailableQuantity_sum:
  "fst (calculateAvailableQuantity db itemId startDate endDate) =
     (if \<not> fst (request db) then Inl (Error ''Error checking the bookings'')
      else if \<not> fst (request (snd (request db)))
      then Inl (Error ''Error when retrieving/ calling item.total'')
      else
        (case single (filter (\<lambda>s. si_id s = itemId) (storage_items db)) of
           None \<Rightarrow> Inl (Error ''Error when retrieving/ calling item.total'')
         | Some s \<Rightarrow>
             Inr (items_number_total s
                  - sumOverlapping (order_items db) itemId startDate endDate
                      {''pending'', ''confirmed''})))"
  by (auto simp: calculateAvailableQuantity_def calculateAvailableQuantity_overlapping_def
        select_items_number_total_fst case_prod_beta Let_def bool.case_eq_if
        reduce_quantity_sum sumOverlapping_def intervals_overlap_def comp_def
        split: option.splits)

lemma checkAvailability_sum:
  "fst (checkAvailability db itemId startDate endDate userId) =
     (if \<not> fst (request db) then Inl (BadRequestException ''Error checking overlapping bookings'')
      else if \<not> fst (request (snd (request db)))
      then Inl (BadRequestException ''Item data not found'')
      else
        (case single (filter (\<lambda>s. si_id s = itemId) (storage_items db)) of
           None \<Rightarrow> Inl (BadRequestException ''Item data not found'')
         | Some s \<Rightarrow>
             Inr \<lparr>av_item_id = itemId,
                  availableQuantity = items_number_total s
                    - sumOverlapping (order_items db) itemId startDate endDate UNIV,
                  alreadyBookedQuantity =
                    sumOverlapping (order_items db) itemId startDate endDate UNIV,
                  totalQuantity = items_number_total s,
                  av_startDate = startDate,
                  av_endDate = endDate\<rparr>))"
  by (auto simp: checkAvailability_def checkAvailability_overlappingOrders_def
        select_items_number_total_fst case_prod_beta Let_def bool.case_eq_if
        reduce_quantity_sum sumOverlapping_def intervals_overlap_def comp_def
        split: option.splits)

lemma createBooking_exceeds_sum:
  "createBooking_exceeds db item =
     (case single (filter (\<lambda>s. si_id s = item_id item) (storage_items db)) of
        None \<Rightarrow> False
      | Some s \<Rightarrow>
          items_number_total s
          < sumOverlapping (order_items db) (item_id item) (start_date item) (end_date item) UNIV
            + quantity item)"
  by (simp add: createBooking_exceeds_def reduce_quantity_sum sumOverlapping_def
        intervals_overlap_def comp_def split: option.splits)

lemma createBooking_refuses_iff:
  assumes "outages db = []"
    and "user_id dto \<noteq> []"
    and "single (filter (\<lambda>p. up_id p = user_id dto) (user_profiles db)) \<noteq> None"
    and "\<forall>it \<in> set (items dto).
           single (filter (\<lambda>s. si_id s = item_id it) (storage_items db)) \<noteq> None"
  shows "(\<exists>x. fst (createBooking db dto nowISO rnd newId)
              = Inl (BadRequestException (''Not enough quantity available for item '' @ x)))
         = (\<exists>it \<in> set (items dto). createBooking_exceeds db it)"
proof
  assume "\<exists>x. fst (createBooking db dto nowISO rnd newId)
              = Inl (BadRequestException (''Not enough quantity available for item '' @ x))"
  then obtain x where failed: "fst (createBooking db dto nowISO rnd newId)
              = Inl (BadRequestException (''Not enough quantity available for item '' @ x))" ..
  define err where
    "err = BadRequestException (''Not enough quantity available for item '' @ x)"
  from failed have failed': "fst (createBooking db dto nowISO rnd newId) = Inl err"
    by (simp add: err_def)
  have other:
    "BadRequestException ''No userId found: user_id is required'' \<noteq> err"
    "BadRequestException ''User not found'' \<noteq> err"
    "BadRequestException ''Could not create order'' \<noteq> err"
    by (simp_all add: err_def)
  have loop: "fst (createBooking_insert orderId its d) \<noteq> Inl err" for orderId its d
    unfolding err_def by (rule createBooking_insert_error)
  from failed' other loop
  have check: "fst (createBooking_check (items dto) (snd (request db))) = Inl err"
    by (auto simp: createBooking_unfold Let_def split: option.splits sum.splits if_splits)
  have same: "createBooking_exceeds (snd (request db)) it = createBooking_exceeds db it" for it
    by (rule createBooking_exceeds_tables) simp_all
  from createBooking_check_names[of "items dto" "snd (request db)" x] check same
  show "\<exists>it \<in> set (items dto). createBooking_exceeds db it"
    by (auto simp: err_def)
next
  assume "\<exists>it \<in> set (items dto). createBooking_exceeds db it"
  then obtain item where "find (createBooking_exceeds db) (items dto) = Some item"
    by (cases "find (createBooking_exceeds db) (items dto)") (auto simp: find_None_iff)
  from createBooking_names_first_exceeding[OF assms this, of nowISO rnd newId]
  show "\<exists>x. fst (createBooking db dto nowISO rnd newId)
              = Inl (BadRequestException (''Not enough quantity available for item '' @ x))"
    by auto
qed

text \<open>
  C4, as the code has it. Every overlap query of the code uses the closed-interval
  predicate of the specification (\<open>a.start \<le> b.end\<close> and \<open>a.end \<ge> b.start\<close>):
  \<^verbatim>\<open>calculateAvailableQuantity\<close> answers the total of the item less the ledger sum
  over the pending and confirmed claims that intersect the queried interval,
  \<^verbatim>\<open>checkAvailability\<close> answers the total less the ledger sum over the claims of
  every status that intersect it, and \<^verbatim>\<open>createBooking\<close>, when the store answers
  and the user and the items are found, refuses a request for lack of quantity exactly
  when for some line item the ledger sum over the claims that intersect its interval,
  plus its quantity, exceeds the total. The predicate is symmetric, and the intervals
  [2024-01-01, 2024-01-05] and [2024-01-05, 2024-01-10], which share one boundary day,
  overlap. The availability check of \<^verbatim>\<open>confirmBooking\<close> is not among them: it uses
  no dates.
\<close>

theorem overlap_queries_use_closed_interval_predicate:
  "fst (calculateAvailableQuantity db itemId startDate endDate) =
     (if \<not> fst (request db) then Inl (Error ''Error checking the bookings'')
      else if \<not> fst (request (snd (request db)))
      then Inl (Error ''Error when retrieving/ calling item.total'')
      else
        (case single (filter (\<lambda>s. si_id s = itemId) (storage_items db)) of
           None \<Rightarrow> Inl (Error ''Error when retrieving/ calling item.total'')
         | Some s \<Rightarrow>
             Inr (items_number_total s
                  - sumOverlapping (order_items db) itemId startDate endDate
                      {''pending'', ''confirmed''})))
   \<and> fst (checkAvailability db itemId startDate endDate userId) =
     (if \<not> fst (request db) then Inl (BadRequestException ''Error checking overlapping bookings'')
      else if \<not> fst (request (snd (request db)))
      then Inl (BadRequestException ''Item data not found'')
      else
        (case single (filter (\<lambda>s. si_id s = itemId) (storage_items db)) of
           None \<Rightarrow> Inl (BadRequestException ''Item data not found'')
         | Some s \<Rightarrow>
             Inr \<lparr>av_item_id = itemId,
                  availableQuantity = items_number_total s
                    - sumOverlapping (order_items db) itemId startDate endDate UNIV,
                  alreadyBookedQuantity =
                    sumOverlapping (order_items db) itemId startDate endDate UNIV,
                  totalQuantity = items_number_total s,
                  av_startDate = startDate,
                  av_endDate = endDate\<rparr>))
   \<and> (outages db = [] \<and> user_id dto \<noteq> []
        \<and> single (filter (\<lambda>p. up_id p = user_id dto) (user_profiles db)) \<noteq> None
        \<and> (\<forall>it \<in> set (items dto).
              single (filter (\<lambda>s. si_id s = item_id it) (storage_items db)) \<noteq> None)
     \<longrightarrow> (\<exists>x. fst (createBooking db dto nowISO rnd newId)
                = Inl (BadRequestException (''Not enough quantity available for item '' @ x)))
         = (\<exists>it \<in> set (items dto).
              case single (filter (\<lambda>s. si_id s = item_id it) (storage_items db)) of
                None \<Rightarrow> False
              | Some s \<Rightarrow>
                  items_number_total s
                  < sumOverlapping (order_items db) (item_id it) (start_date it) (end_date it)
                      UNIV
                    + quantity it))
   \<and> intervals_overlap a b = intervals_overlap b a
   \<and> intervals_overlap (day_number 2024 1 1, day_number 2024 1 5)
         (day_number 2024 1 5, day_number 2024 1 10)"
proof -
  have sym: "intervals_overlap a b = intervals_overlap b a"
    by (auto simp: intervals_overlap_def)
  have boundary: "intervals_overlap (day_number 2024 1 1, day_number 2024 1 5)
         (day_number 2024 1 5, day_number 2024 1 10)"
    by (simp add: intervals_overlap_def day_number_def)
  from calculateAvailableQuantity_sum[of db itemId startDate endDate]
    checkAvailability_sum[of db itemId startDate endDate userId]
    createBooking_refuses_iff[of db dto nowISO rnd newId]
    sym boundary
  show ?thesis
    by (simp only: createBooking_exceeds_sum) blast
qed

theorem overlap_queries_use_closed_interval_predicate_witness:
  "outages boundary_store = [] \<and> user_id boundary_day_request \<noteq> []
   \<and> single (filter (\<lambda>p. up_id p = user_id boundary_day_request) (user_profiles boundary_store))
       \<noteq> None
   \<and> list_all (\<lambda>it. single (filter (\<lambda>s. si_id s = item_id it) (storage_items boundary_store))
                       \<noteq> None) (items boundary_day_request)
   \<and> sumOverlapping (order_items boundary_store) ''i1''
        (day_number 2024 1 5) (day_number 2024 1 10) UNIV = 3
   \<and> sumOverlapping (order_items boundary_store) ''i1''
        (day_number 2024 1 6) (day_number 2024 1 10) UNIV = 0
   \<and> fst (createBooking boundary_store boundary_day_request ''2024-01-01T10:00:00.000Z'' 5 ''b9'')
       = Inl (BadRequestException (''Not enough quantity available for item '' @ ''i1''))
   \<and> (\<exists>it \<in> set (items boundary_day_request).
         case single (filter (\<lambda>s. si_id s = item_id it) (storage_items boundary_store)) of
           None \<Rightarrow> False
         | Some s \<Rightarrow>
             items_number_total s
             < sumOverlapping (order_items boundary_store) (item_id it) (start_date it)
                 (end_date it) UNIV
               + quantity it)"
proof -
  have answered: "outages boundary_store = []" by code_simp
  have actor: "user_id boundary_day_request \<noteq> []" by code_simp
  have known: "single (filter (\<lambda>p. up_id p = user_id boundary_day_request)
                  (user_profiles boundary_store)) \<noteq> None" by code_simp
  have present: "list_all (\<lambda>it. single (filter (\<lambda>s. si_id s = item_id it)
                    (storage_items boundary_store)) \<noteq> None) (items boundary_day_request)"
    by code_simp
  then have present': "\<forall>it \<in> set (items boundary_day_request).
      single (filter (\<lambda>s. si_id s = item_id it) (storage_items boundary_store)) \<noteq> None"
    by (simp add: list_all_iff)
  have sum5: "sumOverlapping (order_items boundary_store) ''i1''
        (day_number 2024 1 5) (day_number 2024 1 10) UNIV = 3" by code_simp
  have sum6: "sumOverlapping (order_items boundary_store) ''i1''
        (day_number 2024 1 6) (day_number 2024 1 10) UNIV = 0" by code_simp
  have refused: "fst (createBooking boundary_store boundary_day_request
                        ''2024-01-01T10:00:00.000Z'' 5 ''b9'')
       = Inl (BadRequestException (''Not enough quantity available for item '' @ ''i1''))"
    by code_simp
  from overlap_queries_use_closed_interval_predicate
         [where db = boundary_store and dto = boundary_day_request
            and nowISO = "''2024-01-01T10:00:00.000Z''" and rnd = 5 and newId = "''b9''"]
       answered actor known present' refused
  have "\<exists>it \<in> set (items boundary_day_request).
         case single (filter (\<lambda>s. si_id s = item_id it) (storage_items boundary_store)) of
           None \<Rightarrow> False
         | Some s \<Rightarrow>
             items_number_total s
             < sumOverlapping (order_items boundary_store) (item_id it) (start_date it)
                 (end_date it) UNIV
               + quantity it"
    by blast
  with answered actor known present sum5 sum6 refused show ?thesis by blast
qed

text \<open>
  The claim C4 as stated fails for the availability check of
  \<^verbatim>\<open>confirmBooking\<close>: in \<open>march_claim_store\<close> the booking \<open>b1\<close> asks for two units
  from 2024-01-01 to 2024-01-05, the only other claim lies in March and does not
  intersect that interval, and the ledger leaves three units for it; the check of
  \<^verbatim>\<open>confirmBooking\<close> refuses the booking all the same.
\<close>

theorem confirmBooking_check_uses_no_dates_counterexample:
  "\<not> intervals_overlap (day_number 2024 1 1, day_number 2024 1 5)
        (day_number 2024 3 1, day_number 2024 3 5)
   \<and> fst (calculateAvailableQuantity march_claim_store ''i1''
            (day_number 2024 1 1) (day_number 2024 1 5)) = Inr 3
   \<and> line_items march_claim_store ''b1'' = [(''i1'', Some 2)]
   \<and> fst (confirmBooking march_claim_store ''b1'' ''a1'')
       = Inl (BadRequestException ''Not enough available quantity for item i1'')"
  by code_simp

section \<open>Facts about rejectBooking, cancelBooking and returnItems\<close>

lemma select_role_snd [simp]:
  "snd (select_role u db) = snd (request db)"
  by (auto simp: select_role_def split: prod.splits bool.splits dest!: request_eqD)

lemma select_role_fst:
  "fst (select_role u db) =
     (if fst (request db)
      then map_option up_role (single (filter (\<lambda>p. up_id p = u) (user_profiles db)))
      else None)"
  by (auto simp: select_role_def split: prod.splits bool.splits dest!: request_eqD)


lemma select_order_user_id_fst:
  "fst (select_order_user_id orderId db) =
     (if fst (request db)
      then map_option (\<lambda>row. \<lparr>user_id_of = o_user_id row, status_of = None\<rparr>)
             (single (filter (\<lambda>row. o_id row = orderId) (orders db)))
      else None)"
  by (auto simp: select_order_user_id_def split: prod.splits bool.splits dest!: request_eqD)

lemma select_order_user_id_snd [simp]:
  "snd (select_order_user_id orderId db) = snd (request db)"
  by (auto simp: select_order_user_id_def split: prod.splits bool.splits dest!: request_eqD)

lemma select_order_user_id_status:
  "fst (select_order_user_id orderId
          (db\<lparr>orders := map (\<lambda>row. row\<lparr>o_status := st row\<rparr>) (orders db)\<rparr>))
   = fst (select_order_user_id orderId db)"
  by (simp add: select_order_user_id_fst request_fst filter_map comp_def single_map
        option.map_comp)

lemma cancelBooking_status_blind:
  "fst (cancelBooking (db\<lparr>orders := map (\<lambda>row. row\<lparr>o_status := st row\<rparr>) (orders db)\<rparr>)
          orderId userId)
   = fst (cancelBooking db orderId userId)"
proof -
  let ?db' = "db\<lparr>orders := map (\<lambda>row. row\<lparr>o_status := st row\<rparr>) (orders db)\<rparr>"
  have rq: "fst (request (snd (request (snd (request ?db')))))
            = fst (request (snd (request (snd (request db)))))"
    by (simp add: request_fst)
  have role: "fst (select_role userId (snd (request ?db')))
            = fst (select_role userId (snd (request db)))"
    by (simp add: select_role_fst request_fst)
  show ?thesis
    by (simp add: cancelBooking_def case_prod_beta select_order_user_id_status role rq
          update_order_status_fst bool.case_eq_if Let_def
          split: option.splits)
qed

lemma returnItems_results:
  "fst (returnItems db orderId userId) = Inr ''Items returned successfully''
   \<or> fst (returnItems db orderId userId) = Inl (BadRequestException ''No items found for return'')"
  by (simp add: returnItems_def case_prod_beta split: option.splits)

lemma status_rewrite_tables [simp]:
  "line_items (db\<lparr>orders := xs\<rparr>) orderId = line_items db orderId"
  by (simp add: line_items_def)








text \<open>
  C5 at a failing input. The only line item of item \<open>i1\<close> in
  \<open>cancelled_claim_store\<close> has the terminal status \<open>cancelled\<close> and five units.
  \<^verbatim>\<open>calculateAvailableQuantity\<close> leaves it out and answers five free units for
  2024-01-03 to 2024-01-10; \<^verbatim>\<open>checkAvailability\<close> counts it (five booked, none
  free), and \<^verbatim>\<open>createBooking\<close> refuses a request for one unit.
\<close>

theorem overlap_sum_counts_cancelled_line_item:
  "map oi_status (order_items cancelled_claim_store) = [''cancelled'']
   \<and> fst (calculateAvailableQuantity cancelled_claim_store ''i1''
            (day_number 2024 1 3) (day_number 2024 1 10)) = Inr 5
   \<and> map_sum id (\<lambda>a. (alreadyBookedQuantity a, availableQuantity a, totalQuantity a))
        (fst (checkAvailability cancelled_claim_store ''i1''
                (day_number 2024 1 3) (day_number 2024 1 10) ''u1'')) = Inr (5, 0, 5)
   \<and> fst (createBooking cancelled_claim_store one_unit_request
            ''2024-01-01T10:00:00.000Z'' 5 ''b9'')
       = Inl (BadRequestException ''Not enough quantity available for item i1'')"
  by code_simp

text \<open>
  C6 at a failing input. The result of \<^verbatim>\<open>cancelBooking\<close> does not depend on the
  statuses of the bookings, because the query selects the column \<^verbatim>\<open>user_id\<close> only;
  so the owner \<open>u1\<close>, who is no administrator, cancels the confirmed booking \<open>b1\<close> of
  \<open>confirmed_store\<close>, which gets the status \<open>cancelled by user\<close>.
\<close>

theorem owner_cancels_confirmed_booking:
  "fst (cancelBooking (db\<lparr>orders := map (\<lambda>row. row\<lparr>o_status := st row\<rparr>) (orders db)\<rparr>)
          orderId userId)
     = fst (cancelBooking db orderId userId)
   \<and> map (\<lambda>row. (o_id row, o_user_id row, o_status row)) (orders confirmed_store)
     = [(''b1'', ''u1'', ''confirmed'')]
   \<and> fst (select_role ''u1'' confirmed_store) = Some ''user''
   \<and> fst (cancelBooking confirmed_store ''b1'' ''u1'') = Inr ''Booking cancelled by user''
   \<and> map o_status (orders (snd (cancelBooking confirmed_store ''b1'' ''u1'')))
       = [''cancelled by user'']"
proof -
  have "map (\<lambda>row. (o_id row, o_user_id row, o_status row)) (orders confirmed_store)
     = [(''b1'', ''u1'', ''confirmed'')]
   \<and> fst (select_role ''u1'' confirmed_store) = Some ''user''
   \<and> fst (cancelBooking confirmed_store ''b1'' ''u1'') = Inr ''Booking cancelled by user''
   \<and> map o_status (orders (snd (cancelBooking confirmed_store ''b1'' ''u1'')))
       = [''cancelled by user'']"
    by code_simp
  with cancelBooking_status_blind[where db = db and st = st and orderId = orderId and userId = userId]
  show ?thesis by blast
qed

text \<open>
  C9 at a failing input. \<^verbatim>\<open>returnItems\<close> either succeeds or fails with the error
  "No items found for return", for every actor; the user \<open>u2\<close>, who is neither an
  administrator nor the owner of booking \<open>b1\<close>, returns its items, and the cached
  count of the item goes from three to five.
\<close>

theorem returnItems_by_plain_user:
  "(fst (returnItems db orderId userId) = Inr ''Items returned successfully''
    \<or> fst (returnItems db orderId userId)
        = Inl (BadRequestException ''No items found for return''))
   \<and> fst (select_role ''u2'' confirmed_store) = Some ''user''
   \<and> map o_user_id (orders confirmed_store) = [''u1'']
   \<and> map items_number_available (storage_items confirmed_store) = [3]
   \<and> fst (returnItems confirmed_store ''b1'' ''u2'') = Inr ''Items returned successfully''
   \<and> map items_number_available (storage_items (snd (returnItems confirmed_store ''b1'' ''u2'')))
       = [5]"
proof -
  have "fst (select_role ''u2'' confirmed_store) = Some ''user''
   \<and> map o_user_id (orders confirmed_store) = [''u1'']
   \<and> map items_number_available (storage_items confirmed_store) = [3]
   \<and> fst (returnItems confirmed_store ''b1'' ''u2'') = Inr ''Items returned successfully''
   \<and> map items_number_available (storage_items (snd (returnItems confirmed_store ''b1'' ''u2'')))
       = [5]"
    by code_simp
  with returnItems_results[where db = db and orderId = orderId and userId = userId]
  show ?thesis by blast
qed

end
